theory Spec2Isabelle
  imports Complex_Main
begin

section \<open>Python primitives used by awsbill2graphite.py\<close>

text \<open>
  The script is Python 2: the CSV reader yields byte strings, modelled as \<open>string\<close>.
  Every exception the script can raise is a value of \<open>error\<close>; a function that can
  raise returns \<open>error + 'a\<close> with \<open>Inl\<close> for the exception.
\<close>

datatype error = KeyError | IndexError | ValueError | TypeError | ParserError | StopIteration

definition bindE :: "error + 'a \<Rightarrow> ('a \<Rightarrow> error + 'b) \<Rightarrow> error + 'b" where
  "bindE m f = (case m of Inl e \<Rightarrow> Inl e | Inr x \<Rightarrow> f x)"

text \<open>\<open>s.split(c)\<close> for a one-character separator: the result is never empty.\<close>

fun split :: "char \<Rightarrow> string \<Rightarrow> string list" where
  "split c [] = [[]]"
| "split c (x # xs) =
     (if x = c then [] # split c xs
      else (case split c xs of [] \<Rightarrow> [[x]] | w # ws \<Rightarrow> (x # w) # ws))"

text \<open>\<open>s.split(c, 1)\<close>: at most one cut, at the first occurrence of the separator.\<close>

definition split1 :: "char \<Rightarrow> string \<Rightarrow> string list" where
  "split1 c s =
     (if c \<in> set s then [takeWhile (\<lambda>x. x \<noteq> c) s, tl (dropWhile (\<lambda>x. x \<noteq> c) s)]
      else [s])"

definition startswith :: "string \<Rightarrow> string \<Rightarrow> bool" where
  "startswith s p = (take (length p) s = p)"

text \<open>\<open>sub in s\<close> on strings.\<close>

fun contains :: "string \<Rightarrow> string \<Rightarrow> bool" where
  "contains [] sub = (sub = [])"
| "contains (x # xs) sub = (startswith (x # xs) sub \<or> contains xs sub)"

definition replace :: "char \<Rightarrow> char \<Rightarrow> string \<Rightarrow> string" where
  "replace a b s = map (\<lambda>c. if c = a then b else c) s"

definition is_upper_char :: "char \<Rightarrow> bool" where
  "is_upper_char c = (c \<in> set ''ABCDEFGHIJKLMNOPQRSTUVWXYZ'')"

definition is_lower_char :: "char \<Rightarrow> bool" where
  "is_lower_char c = (c \<in> set ''abcdefghijklmnopqrstuvwxyz'')"

text \<open>
  \<open>s.isupper()\<close>: at least one cased character and no lower-case one (byte strings in
  the C locale: the cased characters are the ASCII letters).
\<close>

definition isupper :: "string \<Rightarrow> bool" where
  "isupper s = (list_ex is_upper_char s \<and> \<not> list_ex is_lower_char s)"

definition isdigit_char :: "char \<Rightarrow> bool" where
  "isdigit_char c = (c \<in> set ''0123456789'')"

fun join :: "string \<Rightarrow> string list \<Rightarrow> string" where
  "join sep [] = []"
| "join sep [x] = x"
| "join sep (x # y # ys) = x @ sep @ join sep (y # ys)"

text \<open>
  \<open>sep.join(pieces)\<close> where a piece may be \<open>None\<close>: Python raises TypeError on an
  item that is not a string.
\<close>

definition join_opt :: "string \<Rightarrow> string option list \<Rightarrow> error + string" where
  "join_opt sep ps = (case those ps of None \<Rightarrow> Inl TypeError | Some xs \<Rightarrow> Inr (join sep xs))"

section \<open>Row\<close>

definition REGION_NAMES :: "string \<rightharpoonup> string" where
  "REGION_NAMES = map_of
     [(''US East (N. Virginia)'', ''us-east-1''),
      (''US West (N. California)'', ''us-west-1''),
      (''US West (Oregon)'', ''us-west-2''),
      (''EU (Ireland)'', ''eu-west-1''),
      (''EU (Frankfurt)'', ''eu-central-1''),
      (''Asia Pacific (Tokyo)'', ''ap-northeast-1''),
      (''Asia Pacific (Seoul)'', ''ap-northeast-2''),
      (''Asia Pacific (Singapore)'', ''ap-southeast-1''),
      (''Asia Pacific (Sydney)'', ''ap-southeast-2''),
      (''South America (Sao Paulo)'', ''sa-east-1'')]"

record Row =
  content :: "string \<rightharpoonup> string"

text \<open>
  \<open>Row.__init__\<close>: \<open>dict(zip(col_names, row_list))\<close>. \<open>zip\<close> stops at the shorter list
  and \<open>dict\<close> keeps the last value of a repeated key. Nothing here raises.
\<close>

definition Row_init :: "string list \<Rightarrow> string list \<Rightarrow> Row" where
  "Row_init col_names row_list =
     \<lparr>content = foldl (\<lambda>m (k, v). m(k \<mapsto> v)) Map.empty (zip col_names row_list)\<rparr>"

text \<open>\<open>self.content[k]\<close>: KeyError when the column is missing.\<close>

definition getitem :: "Row \<Rightarrow> string \<Rightarrow> error + string" where
  "getitem row k = (case content row k of None \<Rightarrow> Inl KeyError | Some v \<Rightarrow> Inr v)"

definition region :: "Row \<Rightarrow> error + string" where
  "region row =
     bindE (getitem row ''product/location'') (\<lambda>loc.
       if REGION_NAMES loc \<noteq> None
       then (case REGION_NAMES loc of None \<Rightarrow> Inl KeyError | Some code \<Rightarrow> Inr code)
       else Inr ''noregion'')"

text \<open>
  Timestamps are instants counted in microseconds since the epoch (the resolution of
  the \<open>datetime\<close> inside an \<open>arrow\<close> object). The parser \<open>arrow.get\<close> belongs to a
  library outside the repository and is a parameter \<open>arrow_get\<close>: \<open>None\<close> is its
  parser error.
\<close>

type_synonym timestamp = int

text \<open>
  \<open>int(delta.total_seconds())\<close>: whole seconds, truncated towards zero, so that a
  span of 3600.5 seconds counts as 3600. Python computes \<open>total_seconds()\<close> as a
  double; the division is exact here, which agrees with the double for spans below
  \<open>2^53\<close> microseconds (about 285 years); the rounding of longer spans is not
  modelled.
\<close>

definition total_seconds_int :: "int \<Rightarrow> int" where
  "total_seconds_int d = (if 0 \<le> d then d div 1000000 else - ((- d) div 1000000))"

fun mapE :: "('a \<Rightarrow> error + 'b) \<Rightarrow> 'a list \<Rightarrow> error + 'b list" where
  "mapE f [] = Inr []"
| "mapE f (x # xs) = bindE (f x) (\<lambda>y. bindE (mapE f xs) (\<lambda>ys. Inr (y # ys)))"

definition arrow_parse :: "(string \<Rightarrow> timestamp option) \<Rightarrow> string \<Rightarrow> error + timestamp" where
  "arrow_parse arrow_get s = (case arrow_get s of None \<Rightarrow> Inl ParserError | Some t \<Rightarrow> Inr t)"

text \<open>
  \<open>Row.interval\<close>: both pieces are parsed before the list is unpacked into
  \<open>start, end\<close>; unpacking a list of one element raises ValueError.
\<close>

definition interval :: "(string \<Rightarrow> timestamp option) \<Rightarrow> Row \<Rightarrow> error + int" where
  "interval arrow_get row =
     bindE (getitem row ''identity/TimeInterval'') (\<lambda>f.
     bindE (mapE (arrow_parse arrow_get) (split1 CHR ''/'' f)) (\<lambda>ts.
       case ts of [start, end] \<Rightarrow> Inr (total_seconds_int (end - start))
                | _ \<Rightarrow> Inl ValueError))"

text \<open>
  The classifier of \<open>Row.usage_type\<close> on the raw field. \<open>Some ''ec2-instance''\<close> is the
  only category; \<open>None\<close> is Python's \<open>None\<close> (usage type not known). After a region
  code is dropped, \<open>splut[0]\<close> on an empty list raises IndexError.
\<close>

definition usage_type_of :: "string \<Rightarrow> error + string option" where
  "usage_type_of raw =
     (case split CHR ''-'' raw of
        [] \<Rightarrow> Inl IndexError
      | seg # rest \<Rightarrow>
          let splut = (if length seg = 4 \<and> take 2 seg \<in> set [''US'', ''EU'', ''AP'', ''SA'']
                          \<and> isupper seg \<and> isdigit_char (seg ! 3)
                       then rest else seg # rest)
          in (case splut of
                [] \<Rightarrow> Inl IndexError
              | first # _ \<Rightarrow>
                  if startswith first ''BoxUsage:'' then Inr (Some ''ec2-instance'')
                  else Inr None))"

definition usage_type :: "Row \<Rightarrow> error + string option" where
  "usage_type row = bindE (getitem row ''lineItem/UsageType'') usage_type_of"

definition instance_type_of :: "string \<Rightarrow> string option" where
  "instance_type_of raw =
     (if \<not> contains raw ''BoxUsage:'' then None
      else let splut = split1 CHR '':'' raw
           in if length splut < 2 then None
              else Some (replace CHR ''.'' CHR ''-'' (splut ! 1)))"

definition instance_type :: "Row \<Rightarrow> error + string option" where
  "instance_type row =
     bindE (getitem row ''lineItem/UsageType'') (\<lambda>raw. Inr (instance_type_of raw))"

text \<open>\<open>Row.end_time\<close>: the piece after the first \<open>/\<close>, IndexError when there is none.\<close>

definition end_time :: "(string \<Rightarrow> timestamp option) \<Rightarrow> Row \<Rightarrow> error + timestamp" where
  "end_time arrow_get row =
     bindE (getitem row ''identity/TimeInterval'') (\<lambda>f.
       case split1 CHR ''/'' f of
         _ # e # _ \<Rightarrow> arrow_parse arrow_get e
       | _ \<Rightarrow> Inl IndexError)"

text \<open>\<open>Row.tags\<close> returns the empty dict; its keys are modelled as a list.\<close>

definition tags :: "Row \<Rightarrow> (string \<times> string) list" where
  "tags row = []"

text \<open>
  \<open>Row.amount\<close>: \<open>float(...)\<close> is a parameter \<open>to_float\<close> into the type \<open>'v\<close> of
  amounts (\<open>None\<close> is its ValueError), so that nothing is assumed of float arithmetic.
\<close>

definition amount :: "(string \<Rightarrow> 'v option) \<Rightarrow> Row \<Rightarrow> error + 'v" where
  "amount to_float row =
     bindE (getitem row ''lineItem/BlendedCost'') (\<lambda>s.
       case to_float s of None \<Rightarrow> Inl ValueError | Some a \<Rightarrow> Inr a)"

section \<open>Timeseries patterns\<close>

text \<open>
  The two concrete subclasses of \<open>TimeseriesPattern\<close>. In \<open>ByInstanceType.match\<close> the
  conjunction evaluates \<open>usage_type()\<close> first, so its exception comes first.
\<close>

datatype pattern = ByInstanceType | AllCosts

fun match :: "pattern \<Rightarrow> Row \<Rightarrow> error + bool" where
  "match ByInstanceType row =
     bindE (usage_type row) (\<lambda>u. Inr (u = Some ''ec2-instance'' \<and> length (tags row) = 0))"
| "match AllCosts row = Inr True"

fun metric_name :: "pattern \<Rightarrow> Row \<Rightarrow> error + string" where
  "metric_name ByInstanceType row =
     bindE (region row) (\<lambda>r.
     bindE (usage_type row) (\<lambda>u.
     bindE (instance_type row) (\<lambda>i.
       join_opt ''.'' [Some r, u, i])))"
| "metric_name AllCosts row = Inr ''all-regions.all-types.total-cost''"

section \<open>MetricLedger\<close>

text \<open>
  \<open>_timeseries\<close> is a \<open>defaultdict\<close> of \<open>defaultdict(float)\<close>. It is modelled as an
  association list in order of first insertion; Python 2 iterates a dict in an order
  of its own, so only the set of entries is meaningful. \<open>d[k] = f(d[k])\<close> on a
  defaultdict with default \<open>dflt\<close> is \<open>upd_default\<close>.
\<close>

fun upd_default :: "'k \<Rightarrow> 'a \<Rightarrow> ('a \<Rightarrow> 'a) \<Rightarrow> ('k \<times> 'a) list \<Rightarrow> ('k \<times> 'a) list" where
  "upd_default k dflt f [] = [(k, f dflt)]"
| "upd_default k dflt f ((k', v) # kvs) =
     (if k = k' then (k', f v) # kvs else (k', v) # upd_default k dflt f kvs)"

type_synonym 'v timeseries = "(string \<times> (timestamp \<times> 'v) list) list"

record 'v MetricLedger =
  patterns :: "pattern list"
  timeseries :: "'v timeseries"

definition MetricLedger_init :: "pattern list \<Rightarrow> 'v MetricLedger" where
  "MetricLedger_init timeseries_patterns = \<lparr>patterns = timeseries_patterns, timeseries = []\<rparr>"

text \<open>\<open>self._timeseries[name][t] += a\<close>, the inner default being \<open>float()\<close>, that is zero.\<close>

definition add_amount :: "string \<Rightarrow> timestamp \<Rightarrow> 'v::{zero,plus} \<Rightarrow> 'v timeseries \<Rightarrow> 'v timeseries" where
  "add_amount name t a tss = upd_default name [] (upd_default t 0 (\<lambda>v. v + a)) tss"

text \<open>
  The loop of \<open>MetricLedger.process\<close> over the patterns. In the augmented assignment
  Python evaluates \<open>metric_name\<close>, then \<open>end_time\<close>, then \<open>amount\<close>.
\<close>

fun process_patterns ::
  "(string \<Rightarrow> timestamp option) \<Rightarrow> (string \<Rightarrow> 'v option) \<Rightarrow> pattern list \<Rightarrow> Row
     \<Rightarrow> 'v::{zero,plus} timeseries \<Rightarrow> error + 'v timeseries" where
  "process_patterns arrow_get to_float [] row tss = Inr tss"
| "process_patterns arrow_get to_float (pat # pats) row tss =
     bindE (match pat row) (\<lambda>m.
       if m then
         bindE (metric_name pat row) (\<lambda>name.
         bindE (end_time arrow_get row) (\<lambda>t.
         bindE (amount to_float row) (\<lambda>a.
           process_patterns arrow_get to_float pats row (add_amount name t a tss))))
       else process_patterns arrow_get to_float pats row tss)"

definition process ::
  "(string \<Rightarrow> timestamp option) \<Rightarrow> (string \<Rightarrow> 'v option) \<Rightarrow> 'v::{zero,plus} MetricLedger \<Rightarrow> Row
     \<Rightarrow> error + 'v MetricLedger" where
  "process arrow_get to_float ledger row =
     bindE (process_patterns arrow_get to_float (patterns ledger) row (timeseries ledger))
       (\<lambda>tss. Inr (ledger\<lparr>timeseries := tss\<rparr>))"

section \<open>MetricFormatter\<close>

definition digit_char :: "nat \<Rightarrow> char" where
  "digit_char d = ''0123456789'' ! d"

fun show_nat :: "nat \<Rightarrow> string" where
  "show_nat n = (if n < 10 then [digit_char n] else show_nat (n div 10) @ [digit_char (n mod 10)])"

declare show_nat.simps [simp del]

definition show_int :: "int \<Rightarrow> string" where
  "show_int i = (if i < 0 then ''-'' @ show_nat (nat (- i)) else show_nat (nat i))"

definition round_half_even :: "rat \<Rightarrow> int" where
  "round_half_even q =
     (let f = \<lfloor>q\<rfloor>; r = q - of_int f
      in if r < 1 / 2 then f else if 1 / 2 < r then f + 1 else if even f then f else f + 1)"

text \<open>
  Python's presentation type \<open>f\<close> with zero padding to \<open>width\<close>: the format specs
  \<open>0<width>f\<close> (no precision: six digits after the point) and
  \<open>0<width>.<p>f\<close>. A finite float is the rational it denotes, and the digits are
  those of that rational rounded half-to-even; infinities, NaN and the negative zero
  are outside the model.
\<close>

definition format_f :: "nat \<Rightarrow> nat option \<Rightarrow> rat \<Rightarrow> string" where
  "format_f width precision x =
     (let p = (case precision of None \<Rightarrow> 6 | Some p \<Rightarrow> p);
          n = nat (round_half_even (\<bar>x\<bar> * 10 ^ p));
          ip = show_nat (n div 10 ^ p);
          fp = show_nat (n mod 10 ^ p);
          body = ip @ (if p = 0 then [] else ''.'' @ replicate (p - length fp) CHR ''0'' @ fp);
          sign = (if x < 0 then ''-'' else [])
      in sign @ replicate (width - length sign - length body) CHR ''0'' @ body)"

text \<open>
  \<open>timestamp.strftime('%s')\<close>: the C library's \<open>%s\<close> reads the wall-clock fields
  of the timestamp in the time zone of the process and ignores the timestamp's own
  offset. The definition is the case in which both are UTC: the seconds of the
  instant since the epoch, in decimal. A timestamp with another offset, or a process
  in another zone, prints a number shifted by whole seconds; an instant alone cannot
  express that and it is not modelled.
\<close>

definition strftime_s :: "timestamp \<Rightarrow> string" where
  "strftime_s t = show_int (t div 1000000)"

record MetricFormatter =
  initial_pieces :: "string option list"

text \<open>
  \<open>MetricFormatter.__init__\<close>; \<open>getenv_prefix\<close> is what
  \<open>os.getenv("AWSBILL_METRIC_PREFIX")\<close> returns, \<open>None\<close> when the variable is unset.
\<close>

definition MetricFormatter_init :: "string option \<Rightarrow> MetricFormatter" where
  "MetricFormatter_init getenv_prefix =
     \<lparr>initial_pieces = (if getenv_prefix \<noteq> Some [] then [getenv_prefix] else [])\<rparr>"

definition format :: "MetricFormatter \<Rightarrow> string \<Rightarrow> timestamp \<Rightarrow> rat \<Rightarrow> error + string" where
  "format fm ts_id timestamp val =
     bindE (join_opt ''.'' (initial_pieces fm @ [Some ts_id])) (\<lambda>name.
       Inr (name @ '' '' @ format_f 4 None val @ '' '' @ strftime_s timestamp @ [CHR 0x0A]))"

text \<open>\<open>MetricLedger.output\<close> (\<open>output\<close> is reserved in Isabelle): the lines written, in the order of the model's table.\<close>

definition output_lines :: "string option \<Rightarrow> rat MetricLedger \<Rightarrow> error + string list" where
  "output_lines getenv_prefix ledger =
     (let formatter = MetricFormatter_init getenv_prefix
      in bindE (mapE (\<lambda>(ts_id, ts). mapE (\<lambda>(t, v). format formatter ts_id t v) ts)
                  (timeseries ledger))
           (\<lambda>lss. Inr (concat lss)))"

section \<open>The driver\<close>

text \<open>
  The loop of \<open>generate_metrics\<close> over the data rows, each a list of fields as the
  \<open>csv\<close> reader yields it.
\<close>

fun feed ::
  "(string \<Rightarrow> timestamp option) \<Rightarrow> (string \<Rightarrow> 'v option) \<Rightarrow> string list \<Rightarrow> string list list
     \<Rightarrow> 'v::{zero,plus} MetricLedger \<Rightarrow> error + 'v MetricLedger" where
  "feed arrow_get to_float col_names [] ledger = Inr ledger"
| "feed arrow_get to_float col_names (row_list # rest) ledger =
     (let row = Row_init col_names row_list
      in bindE (getitem row ''lineItem/LineItemType'') (\<lambda>lit.
           if lit \<noteq> ''Usage'' then feed arrow_get to_float col_names rest ledger
           else bindE (interval arrow_get row) (\<lambda>n.
             if n \<noteq> 3600 then feed arrow_get to_float col_names rest ledger
             else bindE (process arrow_get to_float ledger row) (\<lambda>ledger'.
               feed arrow_get to_float col_names rest ledger'))))"

text \<open>
  \<open>generate_metrics\<close>: \<open>reader.next()\<close> on an empty file raises StopIteration. The
  result is the list of lines written to the output file.
\<close>

definition generate_metrics ::
  "(string \<Rightarrow> timestamp option) \<Rightarrow> (string \<Rightarrow> rat option) \<Rightarrow> string option \<Rightarrow> string list list
     \<Rightarrow> error + string list" where
  "generate_metrics arrow_get to_float getenv_prefix csv =
     (case csv of
        [] \<Rightarrow> Inl StopIteration
      | col_names # rows \<Rightarrow>
          bindE (feed arrow_get to_float col_names rows (MetricLedger_init [ByInstanceType, AllCosts]))
            (\<lambda>ledger. output_lines getenv_prefix ledger))"

section \<open>Notions used to state the properties\<close>

text \<open>
  The accumulator the table holds for a metric name and a timestamp, read without
  creating it (\<open>None\<close> when either key is missing).
\<close>

definition accumulator :: "'v timeseries \<Rightarrow> string \<Rightarrow> timestamp \<Rightarrow> 'v option" where
  "accumulator tss name t = (case map_of tss name of None \<Rightarrow> None | Some ts \<Rightarrow> map_of ts t)"

text \<open>Every key occurs once, in the outer table and in each inner one.\<close>

definition well_keyed :: "'v timeseries \<Rightarrow> bool" where
  "well_keyed tss =
     (distinct (map fst tss) \<and> list_all (\<lambda>(name, ts). distinct (map fst ts)) tss)"

text \<open>
  The metric points of the table, one for each accumulator: metric name, timestamp and
  value, in the order in which \<open>MetricLedger.output\<close> visits them.
\<close>

definition points :: "'v timeseries \<Rightarrow> (string \<times> timestamp \<times> 'v) list" where
  "points tss = concat (map (\<lambda>(name, ts). map (\<lambda>(t, v). (name, t, v)) ts) tss)"

text \<open>
  What one record adds to the pair \<open>(name, t)\<close> through one pattern: its amount when
  the pattern matches it, names it \<open>name\<close> and its end time is \<open>t\<close>. The amounts of a
  list of records for the pair follow in processing order: record by record, pattern
  by pattern.
\<close>

definition contribution ::
  "(string \<Rightarrow> timestamp option) \<Rightarrow> (string \<Rightarrow> 'v option) \<Rightarrow> string \<Rightarrow> timestamp \<Rightarrow> Row
     \<Rightarrow> pattern \<Rightarrow> 'v list" where
  "contribution arrow_get to_float name t row pat =
     (if match pat row = Inr True \<and> metric_name pat row = Inr name
         \<and> end_time arrow_get row = Inr t
      then (case amount to_float row of Inl e \<Rightarrow> [] | Inr a \<Rightarrow> [a])
      else [])"

definition amounts_for ::
  "(string \<Rightarrow> timestamp option) \<Rightarrow> (string \<Rightarrow> 'v option) \<Rightarrow> pattern list \<Rightarrow> Row list
     \<Rightarrow> string \<Rightarrow> timestamp \<Rightarrow> 'v list" where
  "amounts_for arrow_get to_float pats rows name t =
     concat (map (\<lambda>row. concat (map (contribution arrow_get to_float name t row) pats)) rows)"

text \<open>The records the driver hands to \<open>process\<close>: hourly rows of type \<open>Usage\<close>.\<close>

definition processed :: "(string \<Rightarrow> timestamp option) \<Rightarrow> string list \<Rightarrow> string list list \<Rightarrow> Row list" where
  "processed arrow_get col_names rows =
     filter (\<lambda>row. getitem row ''lineItem/LineItemType'' = Inr ''Usage''
                    \<and> interval arrow_get row = Inr 3600)
       (map (Row_init col_names) rows)"

text \<open>
  The value of an accumulator after the amounts \<open>as\<close> were added in turn, starting
  from what the table held (\<open>None\<close>: a fresh accumulator is zero).
\<close>

definition accumulate :: "'v::{zero,plus} option \<Rightarrow> 'v list \<Rightarrow> 'v option" where
  "accumulate acc as =
     foldl (\<lambda>acc a. Some ((case acc of None \<Rightarrow> 0 | Some v \<Rightarrow> v) + a)) acc as"

text \<open>
  Instances of the two library parameters for closed examples: four ISO-8601 instants
  with their microseconds since the epoch, and four decimal amounts.
\<close>

definition sample_arrow_get :: "string \<Rightarrow> timestamp option" where
  "sample_arrow_get = map_of
     [(''2016-01-01T00:00:00Z'', 1451606400000000),
      (''2016-01-01T01:00:00Z'', 1451610000000000),
      (''2016-01-01T01:00:00.500000Z'', 1451610000500000),
      (''2016-01-01T02:00:00Z'', 1451613600000000)]"

definition sample_to_float :: "string \<Rightarrow> rat option" where
  "sample_to_float = map_of
     [(''1.25'', 5 / 4), (''0.75'', 3 / 4), (''3.0'', 3), (''0.850000'', 17 / 20)]"

definition sample_columns :: "string list" where
  "sample_columns =
     [''identity/TimeInterval'', ''lineItem/LineItemType'', ''lineItem/UsageType'',
      ''lineItem/BlendedCost'', ''product/location'']"

section \<open>Facts about the string primitives and the classifier\<close>

lemma contains_Nil: "contains s []"
  by (cases s) (simp_all add: startswith_def)

lemma startswith_Nil_iff: "startswith [] p \<longleftrightarrow> p = []"
  by (auto simp: startswith_def)

lemma split_not_Nil: "split c s \<noteq> []"
  by (induction s) (auto split: list.splits)

lemma split_hd_prefix: "split c s = w # ws \<Longrightarrow> take (length w) s = w"
proof (induction s arbitrary: w ws)
  case Nil
  then show ?case by simp
next
  case (Cons a s)
  then show ?case by (auto split: if_splits list.splits)
qed

lemma startswith_trans:
  "startswith x p \<Longrightarrow> take (length x) s = x \<Longrightarrow> startswith s p"
  unfolding startswith_def
  by (metis append_eq_conv_conj append_take_drop_id append.assoc)

lemma segment_contains:
  "x \<in> set (split c s) \<Longrightarrow> startswith x p \<Longrightarrow> contains s p"
proof (induction s arbitrary: x)
  case Nil
  then show ?case by (simp add: startswith_Nil_iff)
next
  case (Cons a s)
  show ?case
  proof (cases "a = c")
    case True
    with Cons.prems have "x = [] \<or> x \<in> set (split c s)" by simp
    then show ?thesis
    proof
      assume "x = []"
      with Cons.prems(2) have "p = []" by (simp add: startswith_Nil_iff)
      then show ?thesis by (simp add: startswith_def)
    next
      assume "x \<in> set (split c s)"
      then have "contains s p" using Cons.IH Cons.prems(2) by blast
      then show ?thesis by simp
    qed
  next
    case False
    obtain w ws where sp: "split c s = w # ws"
      using split_not_Nil [of c s] by (cases "split c s") auto
    with False Cons.prems have "x = a # w \<or> x \<in> set ws" by simp
    then show ?thesis
    proof
      assume x: "x = a # w"
      have "take (length (a # w)) (a # s) = a # w"
        using split_hd_prefix [OF sp] by simp
      then have "startswith (a # s) p"
        using startswith_trans Cons.prems(2) x by blast
      then show ?thesis by simp
    next
      assume "x \<in> set ws"
      then have "x \<in> set (split c s)" using sp by simp
      then have "contains s p" using Cons.IH Cons.prems(2) by blast
      then show ?thesis by simp
    qed
  qed
qed

lemma startswith_set: "startswith s p \<Longrightarrow> set p \<subseteq> set s"
  unfolding startswith_def by (metis set_take_subset)

lemma contains_set: "contains s p \<Longrightarrow> set p \<subseteq> set s"
proof (induction s)
  case Nil
  then show ?case by simp
next
  case (Cons a s)
  from Cons.prems have "startswith (a # s) p \<or> contains s p" by simp
  then show ?case
  proof
    assume "startswith (a # s) p"
    then show ?thesis by (rule startswith_set)
  next
    assume "contains s p"
    then have "set p \<subseteq> set s" by (rule Cons.IH)
    then show ?thesis by auto
  qed
qed

lemma usage_type_of_ec2_contains:
  assumes "usage_type_of raw = Inr (Some u)"
  shows "contains raw ''BoxUsage:''"
proof -
  obtain seg rest where sp: "split CHR ''-'' raw = seg # rest"
    using split_not_Nil [of "CHR ''-''" raw] by (cases "split CHR ''-'' raw") auto
  from assms sp obtain x where "x \<in> set (seg # rest)" "startswith x ''BoxUsage:''"
    unfolding usage_type_of_def
    by (auto simp: Let_def split: if_splits list.splits)
  then show ?thesis using segment_contains [of x "CHR ''-''" raw] sp by simp
qed

lemma instance_type_of_colon:
  assumes "contains raw ''BoxUsage:''"
  shows "instance_type_of raw =
           Some (replace CHR ''.'' CHR ''-'' (tl (dropWhile (\<lambda>x. x \<noteq> CHR '':'') raw)))"
proof -
  have "CHR '':'' \<in> set raw" using contains_set [OF assms] by auto
  then show ?thesis using assms by (simp add: instance_type_of_def split1_def)
qed

lemma usage_type_of_values:
  "usage_type_of raw = Inr (Some u) \<Longrightarrow> u = ''ec2-instance''"
  unfolding usage_type_of_def by (auto simp: Let_def split: if_splits list.splits)

lemmas str_defs = usage_type_of_def instance_type_of_def isupper_def is_upper_char_def
  is_lower_char_def isdigit_char_def startswith_def split1_def replace_def Let_def

lemma row_get: "content row k = Some v \<Longrightarrow> getitem row k = Inr v"
  by (simp add: getitem_def)

lemma show_nat_lt10: "n < 10 \<Longrightarrow> show_nat n = [digit_char n]"
  by (simp add: show_nat.simps)

lemma show_nat_ge10: "10 \<le> n \<Longrightarrow> show_nat n = show_nat (n div 10) @ [digit_char (n mod 10)]"
  by (subst show_nat.simps) simp

lemma replicate_numeral_eval: "replicate (numeral k) x = x # replicate (pred_numeral k) x"
  by (simp add: numeral_eq_Suc)

lemmas fmt_eval = format_f_def round_half_even_def Let_def show_nat_lt10 show_nat_ge10
  digit_char_def replicate_numeral_eval strftime_s_def show_int_def

lemma format_no_prefix:
  "format (MetricFormatter_init (Some [])) ts_id t v =
     Inr (ts_id @ '' '' @ format_f 4 None v @ '' '' @ strftime_s t @ [CHR 0x0A])"
  by (simp add: format_def MetricFormatter_init_def join_opt_def bindE_def)

lemma foldl_upd_dom:
  "dom (foldl (\<lambda>m (k, v). m(k \<mapsto> v)) m0 kvs) = dom m0 \<union> fst ` set kvs"
  by (induction kvs arbitrary: m0) auto

lemma foldl_upd_notin:
  "k \<notin> fst ` set kvs \<Longrightarrow> foldl (\<lambda>m (k, v). m(k \<mapsto> v)) m0 kvs k = m0 k"
  by (induction kvs arbitrary: m0) auto

lemma foldl_upd_distinct:
  "distinct (map fst kvs) \<Longrightarrow> (k, v) \<in> set kvs \<Longrightarrow>
     foldl (\<lambda>m (k, v). m(k \<mapsto> v)) m0 kvs k = Some v"
proof (induction kvs arbitrary: m0)
  case Nil
  then show ?case by simp
next
  case (Cons kv kvs)
  let ?f = "\<lambda>m (k, v). m(k \<mapsto> v)"
  obtain k' v' where kv: "kv = (k', v')" by (cases kv)
  have step: "foldl ?f m0 (kv # kvs) k = foldl ?f (m0(k' \<mapsto> v')) kvs k"
    by (simp add: kv)
  show ?case
  proof (cases "(k, v) = kv")
    case True
    then have notin: "k \<notin> fst ` set kvs" using Cons.prems(1) kv by auto
    note step
    also have "foldl ?f (m0(k' \<mapsto> v')) kvs k = (m0(k' \<mapsto> v')) k"
      using notin by (rule foldl_upd_notin)
    also have "\<dots> = Some v" using True kv by simp
    finally show ?thesis .
  next
    case False
    then have "(k, v) \<in> set kvs" using Cons.prems(2) by simp
    moreover have "distinct (map fst kvs)" using Cons.prems(1) by simp
    ultimately have "foldl ?f (m0(k' \<mapsto> v')) kvs k = Some v"
      by (rule Cons.IH [rotated])
    with step show ?thesis by (simp only:)
  qed
qed

section \<open>The claims\<close>

text \<open>
  C1. The claim: the formatted line is the (optionally prefixed) metric name, a space,
  the value with four digits after the point, a space, the Unix timestamp in seconds
  and a newline. The format string of \<open>MetricFormatter.format\<close> is
  \<open>{1:04f}\<close>: a zero-padded minimum width of four and no precision, so the value
  is printed with six digits after the point. For the value 2 the line carries
  \<open>2.000000\<close>, where the four-digit rendering \<open>.4f\<close> is \<open>2.0000\<close>.
\<close>

theorem format_six_decimals:
  "format (MetricFormatter_init (Some [])) ''all-regions.all-types.total-cost'' 1451610000000000 2
     = Inr (''all-regions.all-types.total-cost 2.000000 1451610000'' @ [CHR 0x0A])
   \<and> format_f 0 (Some 4) 2 = ''2.0000''"
  by (simp add: format_def MetricFormatter_init_def join_opt_def bindE_def fmt_eval)

text \<open>
  C2. The claim: with no prefix configured the line begins directly with the metric
  name. The constructor compares \<open>os.getenv("AWSBILL_METRIC_PREFIX")\<close> with the
  empty string only; when the variable is unset \<open>getenv\<close> returns \<open>None\<close>, which
  differs from \<open>""\<close>, so \<open>None\<close> becomes the first piece and the join raises
  TypeError for every metric name, timestamp and value.
\<close>

theorem format_unset_prefix:
  "format (MetricFormatter_init None) ts_id t v = Inl TypeError"
  by (simp add: format_def MetricFormatter_init_def join_opt_def bindE_def)

text \<open>
  C3. The claim: classification never raises, and a usage type that is only a region
  code, such as \<open>APN1\<close>, is classified as unknown. In \<open>Row.usage_type\<close> the region
  code is dropped from the list of segments, the list is then empty, and
  \<open>splut[0]\<close> raises IndexError.
\<close>

theorem usage_type_region_code_only:
  "usage_type (Row_init [''lineItem/UsageType''] [''APN1'']) = Inl IndexError"
  by (simp add: usage_type_def Row_init_def getitem_def bindE_def str_defs)

text \<open>
  C4. The claim: constructing a record from a header list and a value list of
  different lengths fails with a MalformedRow error. \<open>Row.__init__\<close> has no length
  check and the script has no such error: \<open>zip\<close> pairs the two lists up to the
  shorter one. With headers \<open>a, b\<close> and the single value \<open>1\<close> the record is
  built and holds \<open>a\<close> only.
\<close>

theorem Row_init_mismatch_counterexample:
  "length [''a'', ''b''] \<noteq> length [''1'']
   \<and> Row_init [''a'', ''b''] [''1''] = \<lparr>content = [''a'' \<mapsto> ''1'']\<rparr>"
  by (simp add: Row_init_def)

text \<open>
  C4 as the code has it: construction is total; the columns of the record are the
  first \<open>length row_list\<close> headers, and when the headers are distinct each of them
  holds the value at its position.
\<close>

theorem Row_init_total:
  "dom (content (Row_init col_names row_list)) = set (take (length row_list) col_names)
   \<and> (distinct col_names \<longrightarrow>
        (\<forall>i < min (length col_names) (length row_list).
           content (Row_init col_names row_list) (col_names ! i) = Some (row_list ! i)))"
proof -
  have "fst ` set (zip col_names row_list) = set (map fst (zip col_names row_list))"
    by simp
  also have "\<dots> = set (take (length row_list) col_names)"
    by (simp add: map_fst_zip_take min_def)
  finally have 1: "dom (content (Row_init col_names row_list)) = set (take (length row_list) col_names)"
    by (simp add: Row_init_def foldl_upd_dom)
  have 2: "distinct col_names \<longrightarrow>
        (\<forall>i < min (length col_names) (length row_list).
           content (Row_init col_names row_list) (col_names ! i) = Some (row_list ! i))"
  proof (intro impI allI)
    fix i
    assume d: "distinct col_names" and i: "i < min (length col_names) (length row_list)"
    have dz: "distinct (map fst (zip col_names row_list))"
      using d by (simp add: map_fst_zip_take distinct_take)
    have "(col_names ! i, row_list ! i) \<in> set (zip col_names row_list)"
      using i by (auto simp: set_zip)
    then show "content (Row_init col_names row_list) (col_names ! i) = Some (row_list ! i)"
      using foldl_upd_distinct [OF dz] by (simp add: Row_init_def)
  qed
  from 1 2 show ?thesis by blast
qed

theorem Row_init_total_witness:
  "dom (content (Row_init [''a'', ''b''] [''1''])) = {''a''}
   \<and> content (Row_init [''a'', ''b''] [''1'']) ''a'' = Some ''1''"
proof -
  have d: "distinct [''a'', ''b'']" by simp
  have i: "(0::nat) < min (length [''a'', ''b'']) (length [''1''])" by simp
  from Row_init_total [of "[''a'', ''b'']" "[''1'']"] d i
  have "dom (content (Row_init [''a'', ''b''] [''1''])) = set (take (length [''1'']) [''a'', ''b''])"
    and "content (Row_init [''a'', ''b''] [''1'']) ([''a'', ''b''] ! 0) = Some ([''1''] ! 0)"
    by blast+
  then show ?thesis by simp
qed

text \<open>
  C7. The classifier on the three usage types of the specification, for any row whose
  usage-type column holds them, and the rule of instance-type extraction: when the
  raw string contains \<open>BoxUsage:\<close>, the instance type is what follows the first
  \<open>:\<close>, with every \<open>.\<close> replaced by \<open>-\<close>.
\<close>

theorem usage_type_examples:
  assumes "content row ''lineItem/UsageType'' = Some raw"
  shows "(raw = ''USE1-USW2-AWS-In-Bytes'' \<longrightarrow>
            usage_type row = Inr None \<and> instance_type row = Inr None)
       \<and> (raw = ''APN1-BoxUsage:c3.2xlarge'' \<longrightarrow>
            usage_type row = Inr (Some ''ec2-instance'') \<and> instance_type row = Inr (Some ''c3-2xlarge''))
       \<and> (raw = ''BoxUsage:m1.small'' \<longrightarrow>
            usage_type row = Inr (Some ''ec2-instance'') \<and> instance_type row = Inr (Some ''m1-small''))
       \<and> (\<forall>a b. raw = a @ '':'' @ b \<and> CHR '':'' \<notin> set a \<and> contains raw ''BoxUsage:'' \<longrightarrow>
            instance_type row = Inr (Some (map (\<lambda>c. if c = CHR ''.'' then CHR ''-'' else c) b)))"
proof -
  have g: "getitem row ''lineItem/UsageType'' = Inr raw" using assms by (rule row_get)
  have 1: "raw = ''USE1-USW2-AWS-In-Bytes'' \<longrightarrow>
            usage_type row = Inr None \<and> instance_type row = Inr None"
    by (simp add: usage_type_def instance_type_def g bindE_def str_defs)
  have 2: "raw = ''APN1-BoxUsage:c3.2xlarge'' \<longrightarrow>
            usage_type row = Inr (Some ''ec2-instance'') \<and> instance_type row = Inr (Some ''c3-2xlarge'')"
    by (simp add: usage_type_def instance_type_def g bindE_def str_defs)
  have 3: "raw = ''BoxUsage:m1.small'' \<longrightarrow>
            usage_type row = Inr (Some ''ec2-instance'') \<and> instance_type row = Inr (Some ''m1-small'')"
    by (simp add: usage_type_def instance_type_def g bindE_def str_defs)
  have 4: "\<forall>a b. raw = a @ '':'' @ b \<and> CHR '':'' \<notin> set a \<and> contains raw ''BoxUsage:'' \<longrightarrow>
            instance_type row = Inr (Some (map (\<lambda>c. if c = CHR ''.'' then CHR ''-'' else c) b))"
  proof (intro allI impI)
    fix a b
    assume h: "raw = a @ '':'' @ b \<and> CHR '':'' \<notin> set a \<and> contains raw ''BoxUsage:''"
    then have na: "\<And>x. x \<in> set a \<Longrightarrow> x \<noteq> CHR '':''" by auto
    have "dropWhile (\<lambda>x. x \<noteq> CHR '':'') (a @ '':'' @ b) = dropWhile (\<lambda>x. x \<noteq> CHR '':'') ('':'' @ b)"
      using na by (rule dropWhile_append2)
    then have dw: "dropWhile (\<lambda>x. x \<noteq> CHR '':'') raw = '':'' @ b"
      using h by simp
    from h have "instance_type_of raw =
           Some (replace CHR ''.'' CHR ''-'' (tl (dropWhile (\<lambda>x. x \<noteq> CHR '':'') raw)))"
      using instance_type_of_colon by blast
    then show "instance_type row = Inr (Some (map (\<lambda>c. if c = CHR ''.'' then CHR ''-'' else c) b))"
      by (simp add: instance_type_def g bindE_def dw replace_def)
  qed
  from 1 2 3 4 show ?thesis by blast
qed

theorem usage_type_examples_witness:
  "usage_type (Row_init [''lineItem/UsageType''] [''APN1-BoxUsage:c3.2xlarge'']) = Inr (Some ''ec2-instance'')
   \<and> instance_type (Row_init [''lineItem/UsageType''] [''APN1-BoxUsage:c3.2xlarge'']) = Inr (Some ''c3-2xlarge'')"
proof -
  have c: "content (Row_init [''lineItem/UsageType''] [''APN1-BoxUsage:c3.2xlarge'']) ''lineItem/UsageType''
             = Some ''APN1-BoxUsage:c3.2xlarge''"
    by (simp add: Row_init_def)
  show ?thesis using usage_type_examples [OF c] by simp
qed

text \<open>
  C8. For any row with a location column, \<open>region\<close> returns the code of
  \<open>REGION_NAMES\<close> for a location in the table (\<open>us-east-1\<close> for
  \<open>US East (N. Virginia)\<close>) and \<open>noregion\<close> for every other string; it never
  raises for a location string. The table has exactly the ten locations listed.
\<close>

theorem region_total:
  assumes "content row ''product/location'' = Some loc"
  shows "region row = Inr (case REGION_NAMES loc of Some code \<Rightarrow> code | None \<Rightarrow> ''noregion'')
       \<and> (loc = ''US East (N. Virginia)'' \<longrightarrow> region row = Inr ''us-east-1'')
       \<and> (loc \<notin> dom REGION_NAMES \<longrightarrow> region row = Inr ''noregion'')
       \<and> dom REGION_NAMES = {''US East (N. Virginia)'', ''US West (N. California)'',
            ''US West (Oregon)'', ''EU (Ireland)'', ''EU (Frankfurt)'', ''Asia Pacific (Tokyo)'',
            ''Asia Pacific (Seoul)'', ''Asia Pacific (Singapore)'', ''Asia Pacific (Sydney)'',
            ''South America (Sao Paulo)''}"
proof -
  have g: "getitem row ''product/location'' = Inr loc" using assms by (rule row_get)
  have 1: "region row = Inr (case REGION_NAMES loc of Some code \<Rightarrow> code | None \<Rightarrow> ''noregion'')"
    by (simp add: region_def g bindE_def split: option.splits)
  have 2: "loc = ''US East (N. Virginia)'' \<longrightarrow> region row = Inr ''us-east-1''"
    unfolding 1 by (simp add: REGION_NAMES_def)
  have 3: "loc \<notin> dom REGION_NAMES \<longrightarrow> region row = Inr ''noregion''"
    unfolding 1 by (auto simp: dom_def)
  have 4: "dom REGION_NAMES = {''US East (N. Virginia)'', ''US West (N. California)'',
            ''US West (Oregon)'', ''EU (Ireland)'', ''EU (Frankfurt)'', ''Asia Pacific (Tokyo)'',
            ''Asia Pacific (Seoul)'', ''Asia Pacific (Singapore)'', ''Asia Pacific (Sydney)'',
            ''South America (Sao Paulo)''}"
    unfolding REGION_NAMES_def dom_map_of_conv_image_fst by simp
  from 1 2 3 4 show ?thesis by blast
qed

theorem region_total_witness:
  "region (Row_init [''product/location''] [''US East (N. Virginia)'']) = Inr ''us-east-1''
   \<and> region (Row_init [''product/location''] [''Mars (Olympus Mons)'']) = Inr ''noregion''"
proof -
  have a: "content (Row_init [''product/location''] [''US East (N. Virginia)'']) ''product/location''
            = Some ''US East (N. Virginia)''"
    by (simp add: Row_init_def)
  have b: "content (Row_init [''product/location''] [''Mars (Olympus Mons)'']) ''product/location''
            = Some ''Mars (Olympus Mons)''"
    by (simp add: Row_init_def)
  have c: "''Mars (Olympus Mons)'' \<notin> dom REGION_NAMES"
    by (simp add: REGION_NAMES_def dom_def)
  show ?thesis using region_total [OF a] region_total [OF b] c by (simp add: REGION_NAMES_def)
qed

text \<open>
  C10. The claim: a record of category ec2-instance always has an instance type, and
  that instance type is empty when the raw usage type ends exactly at
  \<open>BoxUsage:\<close>. The instance type is what follows the first \<open>:\<close> of the raw
  string, and a dropped region code may hold one: \<open>US:1\<close> has four characters,
  begins with \<open>US\<close>, has no lower-case letter and ends in a digit. The usage type
  \<open>US:1-BoxUsage:\<close> is of category ec2-instance and ends at \<open>BoxUsage:\<close>, and
  its instance type is \<open>1-BoxUsage:\<close>, not the empty string.
\<close>

theorem instance_type_suffix_counterexample:
  "usage_type (Row_init [''lineItem/UsageType''] [''US:1-BoxUsage:'']) = Inr (Some ''ec2-instance'')
   \<and> drop 5 ''US:1-BoxUsage:'' = ''BoxUsage:''
   \<and> instance_type (Row_init [''lineItem/UsageType''] [''US:1-BoxUsage:'']) = Inr (Some ''1-BoxUsage:'')"
  by (simp add: usage_type_def instance_type_def Row_init_def getitem_def bindE_def str_defs)

lemma usage_type_ec2_instance_type:
  assumes "usage_type row = Inr (Some u)"
  shows "\<exists>t. instance_type row = Inr (Some t)"
proof -
  from assms obtain raw where g: "getitem row ''lineItem/UsageType'' = Inr raw"
    and u: "usage_type_of raw = Inr (Some u)"
    by (auto simp: usage_type_def bindE_def split: sum.splits)
  have "contains raw ''BoxUsage:''" using u by (rule usage_type_of_ec2_contains)
  then have "instance_type_of raw =
     Some (replace CHR ''.'' CHR ''-'' (tl (dropWhile (\<lambda>x. x \<noteq> CHR '':'') raw)))"
    by (rule instance_type_of_colon)
  then show ?thesis by (simp add: instance_type_def g bindE_def)
qed

lemma match_ByInstanceType_True:
  "match ByInstanceType row = Inr True \<Longrightarrow> usage_type row = Inr (Some ''ec2-instance'')"
  by (auto simp: bindE_def tags_def split: sum.splits)

lemma instance_type_of_empty:
  assumes "CHR '':'' \<notin> set pre"
  shows "instance_type_of (pre @ ''BoxUsage:'') = Some []"
proof -
  have c: "contains (pre @ ''BoxUsage:'') ''BoxUsage:''"
    by (induction pre) (simp_all add: startswith_def)
  have na: "\<And>x. x \<in> set (pre @ ''BoxUsage'') \<Longrightarrow> x \<noteq> CHR '':''" using assms by auto
  have "dropWhile (\<lambda>x. x \<noteq> CHR '':'') ((pre @ ''BoxUsage'') @ '':'')
          = dropWhile (\<lambda>x. x \<noteq> CHR '':'') '':''"
    using na by (rule dropWhile_append2)
  then have "dropWhile (\<lambda>x. x \<noteq> CHR '':'') (pre @ ''BoxUsage:'') = '':''" by simp
  then show ?thesis using instance_type_of_colon [OF c] by (simp add: replace_def)
qed

text \<open>
  C10 as the code has it: when \<open>usage_type\<close> is ec2-instance, \<open>instance_type\<close>
  returns a string; so when \<open>ByInstanceType.match\<close> holds, \<open>metric_name\<close> joins
  three strings and cannot raise TypeError. The string is empty when the raw usage
  type ends at \<open>BoxUsage:\<close> and has no \<open>:\<close> before it.
\<close>

theorem ec2_instance_type_present:
  "(usage_type row = Inr (Some ''ec2-instance'') \<longrightarrow> (\<exists>t. instance_type row = Inr (Some t)))
   \<and> (match ByInstanceType row = Inr True \<longrightarrow>
        (\<exists>t. instance_type row = Inr (Some t)) \<and> metric_name ByInstanceType row \<noteq> Inl TypeError)
   \<and> (\<forall>pre. content row ''lineItem/UsageType'' = Some (pre @ ''BoxUsage:'') \<and> CHR '':'' \<notin> set pre
        \<longrightarrow> instance_type row = Inr (Some []))"
proof -
  have 1: "usage_type row = Inr (Some ''ec2-instance'') \<longrightarrow> (\<exists>t. instance_type row = Inr (Some t))"
    using usage_type_ec2_instance_type by blast
  have 2: "match ByInstanceType row = Inr True \<longrightarrow>
        (\<exists>t. instance_type row = Inr (Some t)) \<and> metric_name ByInstanceType row \<noteq> Inl TypeError"
  proof
    assume m: "match ByInstanceType row = Inr True"
    then have u: "usage_type row = Inr (Some ''ec2-instance'')" by (rule match_ByInstanceType_True)
    then obtain t where t: "instance_type row = Inr (Some t)"
      using usage_type_ec2_instance_type by blast
    have "metric_name ByInstanceType row \<noteq> Inl TypeError"
      by (cases "content row ''product/location''")
         (simp_all add: region_def getitem_def u t bindE_def join_opt_def split: option.splits)
    with t show "(\<exists>t. instance_type row = Inr (Some t)) \<and> metric_name ByInstanceType row \<noteq> Inl TypeError"
      by blast
  qed
  have 3: "\<forall>pre. content row ''lineItem/UsageType'' = Some (pre @ ''BoxUsage:'') \<and> CHR '':'' \<notin> set pre
        \<longrightarrow> instance_type row = Inr (Some [])"
    by (auto simp: instance_type_def bindE_def row_get instance_type_of_empty)
  from 1 2 3 show ?thesis by blast
qed

theorem ec2_instance_type_present_witness:
  "match ByInstanceType
      (Row_init [''lineItem/UsageType'', ''product/location'']
                [''APN1-BoxUsage:'', ''Asia Pacific (Tokyo)'']) = Inr True
   \<and> instance_type
      (Row_init [''lineItem/UsageType'', ''product/location'']
                [''APN1-BoxUsage:'', ''Asia Pacific (Tokyo)'']) = Inr (Some [])
   \<and> metric_name ByInstanceType
      (Row_init [''lineItem/UsageType'', ''product/location'']
                [''APN1-BoxUsage:'', ''Asia Pacific (Tokyo)'']) \<noteq> Inl TypeError
   \<and> metric_name ByInstanceType
      (Row_init [''lineItem/UsageType'', ''product/location'']
                [''APN1-BoxUsage:'', ''Asia Pacific (Tokyo)'']) = Inr ''ap-northeast-1.ec2-instance.''"
proof -
  let ?row = "Row_init [''lineItem/UsageType'', ''product/location'']
                [''APN1-BoxUsage:'', ''Asia Pacific (Tokyo)'']"
  have g: "getitem ?row ''lineItem/UsageType'' = Inr ''APN1-BoxUsage:''"
    "getitem ?row ''product/location'' = Inr ''Asia Pacific (Tokyo)''"
    by (simp_all add: Row_init_def getitem_def)
  have u: "usage_type ?row = Inr (Some ''ec2-instance'')"
    by (simp add: usage_type_def g bindE_def str_defs)
  have m: "match ByInstanceType ?row = Inr True"
    by (simp add: u bindE_def tags_def)
  have c: "content ?row ''lineItem/UsageType'' = Some (''APN1-'' @ ''BoxUsage:'') \<and> CHR '':'' \<notin> set ''APN1-''"
    by (simp add: Row_init_def)
  from ec2_instance_type_present [of ?row] m c
  have i: "instance_type ?row = Inr (Some [])"
    and nt: "metric_name ByInstanceType ?row \<noteq> Inl TypeError"
    by blast+
  have r: "region ?row = Inr ''ap-northeast-1''"
    by (simp add: region_def g bindE_def REGION_NAMES_def)
  have n: "metric_name ByInstanceType ?row = Inr ''ap-northeast-1.ec2-instance.''"
    by (simp add: r u i bindE_def join_opt_def)
  from m i nt n show ?thesis by blast
qed

section \<open>The ledger: facts about the table\<close>

lemma map_of_upd_default:
  "map_of (upd_default k d f kvs) =
     (map_of kvs)(k \<mapsto> f (case map_of kvs k of None \<Rightarrow> d | Some v \<Rightarrow> v))"
proof (induction kvs)
  case Nil
  show ?case by simp
next
  case (Cons kv kvs)
  obtain k' v' where kv: "kv = (k', v')" by (cases kv)
  show ?case unfolding kv using Cons.IH by (auto simp: fun_eq_iff)
qed

lemma keys_upd_default:
  "fst ` set (upd_default k d f kvs) = insert k (fst ` set kvs)"
proof (induction kvs)
  case Nil
  show ?case by simp
next
  case (Cons kv kvs)
  obtain k' v' where kv: "kv = (k', v')" by (cases kv)
  show ?case unfolding kv using Cons.IH by auto
qed

lemma distinct_upd_default:
  "distinct (map fst kvs) \<Longrightarrow> distinct (map fst (upd_default k d f kvs))"
proof (induction kvs)
  case Nil
  show ?case by simp
next
  case (Cons kv kvs)
  obtain k' v' where kv: "kv = (k', v')" by (cases kv)
  have "k' \<notin> fst ` set kvs" and "distinct (map fst kvs)"
    using Cons.prems kv by auto
  then show ?case unfolding kv using Cons.IH by (auto simp: keys_upd_default)
qed

lemma list_all_upd_default:
  assumes "list_all (\<lambda>(k, v). P v) kvs" and "P d" and "\<And>v. P v \<Longrightarrow> P (f v)"
  shows "list_all (\<lambda>(k, v). P v) (upd_default k d f kvs)"
  using assms(1)
proof (induction kvs)
  case Nil
  show ?case using assms(2,3) by simp
next
  case (Cons kv kvs)
  obtain k' v' where kv: "kv = (k', v')" by (cases kv)
  show ?case using Cons assms(3) unfolding kv by auto
qed

lemma well_keyed_add_amount:
  assumes "well_keyed tss"
  shows "well_keyed (add_amount name t a tss)"
proof -
  have 1: "distinct (map fst (add_amount name t a tss))"
    using assms unfolding well_keyed_def add_amount_def by (simp add: distinct_upd_default)
  have "list_all (\<lambda>(k, ts). distinct (map fst ts))
          (upd_default name [] (upd_default t 0 (\<lambda>v. v + a)) tss)"
  proof (rule list_all_upd_default)
    show "list_all (\<lambda>(k, ts). distinct (map fst ts)) tss"
      using assms by (simp add: well_keyed_def)
    show "distinct (map fst ([] :: (timestamp \<times> 'a) list))" by simp
    show "\<And>ts :: (timestamp \<times> 'a) list. distinct (map fst ts) \<Longrightarrow>
            distinct (map fst (upd_default t 0 (\<lambda>v. v + a) ts))"
      by (rule distinct_upd_default)
  qed
  with 1 show ?thesis by (simp add: well_keyed_def add_amount_def)
qed

lemma accumulator_add_amount:
  "accumulator (add_amount name t a tss) n' t' =
     (if n' = name \<and> t' = t
      then Some ((case accumulator tss name t of None \<Rightarrow> 0 | Some v \<Rightarrow> v) + a)
      else accumulator tss n' t')"
  by (auto simp: accumulator_def add_amount_def map_of_upd_default split: option.splits)

lemma accumulate_Nil: "accumulate acc [] = acc"
  by (simp add: accumulate_def)

lemma accumulate_Cons:
  "accumulate acc (a # as) = accumulate (Some ((case acc of None \<Rightarrow> 0 | Some v \<Rightarrow> v) + a)) as"
  by (simp add: accumulate_def)

lemma accumulate_append: "accumulate acc (xs @ ys) = accumulate (accumulate acc xs) ys"
  by (simp add: accumulate_def)

lemma accumulate_Some: "accumulate (Some v) as = Some (foldl (+) v as)"
  by (induction as arbitrary: v) (simp_all add: accumulate_Nil accumulate_Cons)

lemma accumulate_None:
  "accumulate None as = (if as = [] then None else Some (foldl (+) 0 as))"
  by (cases as) (simp_all add: accumulate_Nil accumulate_Cons accumulate_Some)

lemma process_patterns_table:
  assumes "process_patterns arrow_get to_float pats row tss = Inr tss'" and "well_keyed tss"
  shows "well_keyed tss' \<and> accumulator tss' n t =
     accumulate (accumulator tss n t) (concat (map (contribution arrow_get to_float n t row) pats))"
  using assms
proof (induction pats arbitrary: tss)
  case Nil
  then show ?case by (simp add: accumulate_Nil)
next
  case (Cons pat pats)
  from Cons.prems(1) obtain m where m: "match pat row = Inr m"
    by (auto simp: bindE_def split: sum.splits)
  show ?case
  proof (cases m)
    case False
    with m Cons.prems(1) have "process_patterns arrow_get to_float pats row tss = Inr tss'"
      by (simp add: bindE_def)
    then have "well_keyed tss' \<and> accumulator tss' n t =
       accumulate (accumulator tss n t) (concat (map (contribution arrow_get to_float n t row) pats))"
      using Cons.prems(2) by (rule Cons.IH)
    moreover have "contribution arrow_get to_float n t row pat = []"
      using m False by (simp add: contribution_def)
    ultimately show ?thesis by simp
  next
    case True
    with m Cons.prems(1) obtain name0 t0 a where
      nm: "metric_name pat row = Inr name0" and et: "end_time arrow_get row = Inr t0"
      and am: "amount to_float row = Inr a"
      and rec: "process_patterns arrow_get to_float pats row (add_amount name0 t0 a tss) = Inr tss'"
      by (auto simp: bindE_def split: sum.splits)
    have wk: "well_keyed (add_amount name0 t0 a tss)"
      using Cons.prems(2) by (rule well_keyed_add_amount)
    from rec wk have ih: "well_keyed tss' \<and> accumulator tss' n t =
       accumulate (accumulator (add_amount name0 t0 a tss) n t)
         (concat (map (contribution arrow_get to_float n t row) pats))"
      by (rule Cons.IH)
    have c: "contribution arrow_get to_float n t row pat = (if name0 = n \<and> t0 = t then [a] else [])"
      using m True nm et am by (simp add: contribution_def)
    show ?thesis
    proof (cases "name0 = n \<and> t0 = t")
      case True
      then show ?thesis using ih c
        by (simp add: accumulator_add_amount accumulate_Cons)
    next
      case False
      then have "accumulator (add_amount name0 t0 a tss) n t = accumulator tss n t"
        by (auto simp: accumulator_add_amount)
      then show ?thesis using ih c False by simp
    qed
  qed
qed

lemma feed_table:
  assumes "feed arrow_get to_float col_names rows ledger = Inr ledger'"
      and "well_keyed (timeseries ledger)"
  shows "patterns ledger' = patterns ledger \<and> well_keyed (timeseries ledger')
       \<and> accumulator (timeseries ledger') n t =
           accumulate (accumulator (timeseries ledger) n t)
             (amounts_for arrow_get to_float (patterns ledger)
                (processed arrow_get col_names rows) n t)"
  using assms
proof (induction rows arbitrary: ledger)
  case Nil
  then show ?case by (simp add: amounts_for_def processed_def accumulate_Nil)
next
  case (Cons row_list rows)
  let ?row = "Row_init col_names row_list"
  from Cons.prems(1) obtain lit where lit: "getitem ?row ''lineItem/LineItemType'' = Inr lit"
    by (auto simp: Let_def bindE_def split: sum.splits)
  show ?case
  proof (cases "lit = ''Usage'' \<and> interval arrow_get ?row = Inr 3600")
    case True
    with lit Cons.prems(1) obtain mid where
      p: "process arrow_get to_float ledger ?row = Inr mid"
      and rest: "feed arrow_get to_float col_names rows mid = Inr ledger'"
      by (auto simp: Let_def bindE_def split: sum.splits)
    from p obtain tss where
      pp: "process_patterns arrow_get to_float (patterns ledger) ?row (timeseries ledger) = Inr tss"
      and mid: "mid = ledger\<lparr>timeseries := tss\<rparr>"
      by (auto simp: process_def bindE_def split: sum.splits)
    from pp Cons.prems(2) have step: "well_keyed tss \<and> accumulator tss n t =
       accumulate (accumulator (timeseries ledger) n t)
         (concat (map (contribution arrow_get to_float n t ?row) (patterns ledger)))"
      by (rule process_patterns_table)
    have wk: "well_keyed (timeseries mid)" using step mid by simp
    from rest wk have ih: "patterns ledger' = patterns mid \<and> well_keyed (timeseries ledger')
       \<and> accumulator (timeseries ledger') n t =
           accumulate (accumulator (timeseries mid) n t)
             (amounts_for arrow_get to_float (patterns mid) (processed arrow_get col_names rows) n t)"
      by (rule Cons.IH)
    have pr: "processed arrow_get col_names (row_list # rows)
                = ?row # processed arrow_get col_names rows"
      using True lit by (simp add: processed_def)
    show ?thesis using ih step mid
      by (simp add: pr amounts_for_def accumulate_append)
  next
    case False
    with lit Cons.prems(1) have rest: "feed arrow_get to_float col_names rows ledger = Inr ledger'"
      by (auto simp: Let_def bindE_def split: sum.splits if_splits)
    from rest Cons.prems(2) have ih: "patterns ledger' = patterns ledger \<and> well_keyed (timeseries ledger')
       \<and> accumulator (timeseries ledger') n t =
           accumulate (accumulator (timeseries ledger) n t)
             (amounts_for arrow_get to_float (patterns ledger) (processed arrow_get col_names rows) n t)"
      by (rule Cons.IH)
    have pr: "processed arrow_get col_names (row_list # rows)
                = processed arrow_get col_names rows"
      using False lit by (auto simp: processed_def)
    show ?thesis using ih by (simp add: pr)
  qed
qed

lemma region_values:
  assumes "region row = Inr r"
  shows "r \<in> set [''us-east-1'', ''us-west-1'', ''us-west-2'', ''eu-west-1'', ''eu-central-1'',
                   ''ap-northeast-1'', ''ap-northeast-2'', ''ap-southeast-1'', ''ap-southeast-2'',
                   ''sa-east-1'', ''noregion'']"
proof -
  from assms obtain loc where g: "getitem row ''product/location'' = Inr loc"
    by (auto simp: region_def bindE_def split: sum.splits)
  with assms have r: "(case REGION_NAMES loc of None \<Rightarrow> ''noregion'' | Some c \<Rightarrow> c) = r"
    by (auto simp: region_def bindE_def split: option.splits)
  show ?thesis
  proof (cases "REGION_NAMES loc")
    case None
    with r show ?thesis by simp
  next
    case (Some c)
    then have "(loc, c) \<in> set [(''US East (N. Virginia)'', ''us-east-1''),
      (''US West (N. California)'', ''us-west-1''),
      (''US West (Oregon)'', ''us-west-2''),
      (''EU (Ireland)'', ''eu-west-1''),
      (''EU (Frankfurt)'', ''eu-central-1''),
      (''Asia Pacific (Tokyo)'', ''ap-northeast-1''),
      (''Asia Pacific (Seoul)'', ''ap-northeast-2''),
      (''Asia Pacific (Singapore)'', ''ap-southeast-1''),
      (''Asia Pacific (Sydney)'', ''ap-southeast-2''),
      (''South America (Sao Paulo)'', ''sa-east-1'')]"
      unfolding REGION_NAMES_def by (rule map_of_SomeD)
    then have "c \<in> set [''us-east-1'', ''us-west-1'', ''us-west-2'', ''eu-west-1'', ''eu-central-1'',
                   ''ap-northeast-1'', ''ap-northeast-2'', ''ap-southeast-1'', ''ap-southeast-2'',
                   ''sa-east-1'']"
      by auto
    with r Some show ?thesis by auto
  qed
qed

lemma instance_name_not_total:
  assumes "region row = Inr r"
  shows "r @ ''.ec2-instance.'' @ it \<noteq> ''all-regions.all-types.total-cost''"
  using region_values [OF assms] by auto

lemma interval_end_time:
  assumes "interval arrow_get row = Inr n"
  shows "\<exists>t. end_time arrow_get row = Inr t"
proof -
  from assms obtain f where f: "getitem row ''identity/TimeInterval'' = Inr f"
    by (auto simp: interval_def bindE_def split: sum.splits)
  show ?thesis
  proof (cases "CHR ''/'' \<in> set f")
    case True
    then show ?thesis using assms f
      by (auto simp: interval_def end_time_def bindE_def split1_def split: sum.splits)
  next
    case False
    then show ?thesis using assms f
      by (auto simp: interval_def end_time_def bindE_def split1_def split: sum.splits)
  qed
qed

lemma box_usage_absent_points:
  assumes "content (Row_init col_names row_list) ''lineItem/LineItemType'' = Some ''Usage''"
      and "interval arrow_get (Row_init col_names row_list) = Inr 3600"
      and "usage_type (Row_init col_names row_list) = Inr None"
      and "end_time arrow_get (Row_init col_names row_list) = Inr t"
      and "amount to_float (Row_init col_names row_list) = Inr a"
  shows "feed arrow_get to_float col_names [row_list] (MetricLedger_init [ByInstanceType, AllCosts])
           = Inr \<lparr>patterns = [ByInstanceType, AllCosts],
                  timeseries = [(''all-regions.all-types.total-cost'', [(t, 0 + a)])]\<rparr>"
proof -
  let ?row = "Row_init col_names row_list"
  have lit: "getitem ?row ''lineItem/LineItemType'' = Inr ''Usage''"
    using assms(1) by (rule row_get)
  have m: "match ByInstanceType ?row = Inr False"
    by (simp add: assms(3) bindE_def)
  have ma: "match AllCosts ?row = Inr True" by simp
  have na: "metric_name AllCosts ?row = Inr ''all-regions.all-types.total-cost''" by simp
  have pp: "process_patterns arrow_get to_float [ByInstanceType, AllCosts] ?row []
      = Inr [(''all-regions.all-types.total-cost'', [(t, 0 + a)])]"
    by (simp add: m ma na assms(4,5) bindE_def add_amount_def
        del: match.simps metric_name.simps)
  have pr: "process arrow_get to_float (MetricLedger_init [ByInstanceType, AllCosts]) ?row
      = Inr \<lparr>patterns = [ByInstanceType, AllCosts],
             timeseries = [(''all-regions.all-types.total-cost'', [(t, 0 + a)])]\<rparr>"
    by (simp add: process_def MetricLedger_init_def pp bindE_def del: process_patterns.simps)
  show ?thesis
    by (simp add: Let_def lit assms(2) pr bindE_def)
qed

lemma sample_row_content:
  "content (Row_init sample_columns [iv, lit, ut, c, loc]) ''identity/TimeInterval'' = Some iv"
  "content (Row_init sample_columns [iv, lit, ut, c, loc]) ''lineItem/LineItemType'' = Some lit"
  "content (Row_init sample_columns [iv, lit, ut, c, loc]) ''lineItem/UsageType'' = Some ut"
  "content (Row_init sample_columns [iv, lit, ut, c, loc]) ''lineItem/BlendedCost'' = Some c"
  "content (Row_init sample_columns [iv, lit, ut, c, loc]) ''product/location'' = Some loc"
  by (simp_all add: Row_init_def sample_columns_def)

lemma sample_row_getitem:
  "getitem (Row_init sample_columns [iv, lit, ut, c, loc]) ''identity/TimeInterval'' = Inr iv"
  "getitem (Row_init sample_columns [iv, lit, ut, c, loc]) ''lineItem/LineItemType'' = Inr lit"
  "getitem (Row_init sample_columns [iv, lit, ut, c, loc]) ''lineItem/UsageType'' = Inr ut"
  "getitem (Row_init sample_columns [iv, lit, ut, c, loc]) ''lineItem/BlendedCost'' = Inr c"
  "getitem (Row_init sample_columns [iv, lit, ut, c, loc]) ''product/location'' = Inr loc"
  by (simp_all add: getitem_def sample_row_content)

lemma sample_hour_interval:
  "interval sample_arrow_get
     (Row_init sample_columns [''2016-01-01T00:00:00Z/2016-01-01T01:00:00Z'', lit, ut, c, loc])
     = Inr 3600"
  by (simp add: interval_def sample_row_getitem bindE_def split1_def arrow_parse_def
      sample_arrow_get_def total_seconds_int_def)

lemma sample_hour_end_time:
  "end_time sample_arrow_get
     (Row_init sample_columns [''2016-01-01T00:00:00Z/2016-01-01T01:00:00Z'', lit, ut, c, loc])
     = Inr 1451610000000000"
  by (simp add: end_time_def sample_row_getitem bindE_def split1_def arrow_parse_def
      sample_arrow_get_def)

lemma feed_Cons_processed:
  assumes "getitem (Row_init col_names row_list) ''lineItem/LineItemType'' = Inr ''Usage''"
      and "interval arrow_get (Row_init col_names row_list) = Inr 3600"
      and "process arrow_get to_float ledger (Row_init col_names row_list) = Inr mid"
  shows "feed arrow_get to_float col_names (row_list # rest) ledger
           = feed arrow_get to_float col_names rest mid"
  by (simp add: Let_def assms bindE_def)

lemma process_ec2_row:
  assumes "usage_type row = Inr (Some ''ec2-instance'')"
      and "region row = Inr r"
      and "instance_type row = Inr (Some it)"
      and "end_time arrow_get row = Inr t"
      and "amount to_float row = Inr a"
  shows "process arrow_get to_float \<lparr>patterns = [ByInstanceType, AllCosts], timeseries = tss\<rparr> row
           = Inr \<lparr>patterns = [ByInstanceType, AllCosts],
                  timeseries = add_amount ''all-regions.all-types.total-cost'' t a
                                 (add_amount (r @ ''.ec2-instance.'' @ it) t a tss)\<rparr>"
proof -
  have m: "match ByInstanceType row = Inr True"
    by (simp add: assms(1) bindE_def tags_def)
  have nm: "metric_name ByInstanceType row = Inr (r @ ''.ec2-instance.'' @ it)"
    by (simp add: assms(1,2,3) bindE_def join_opt_def)
  have ma: "match AllCosts row = Inr True" by simp
  have na: "metric_name AllCosts row = Inr ''all-regions.all-types.total-cost''" by simp
  have pp: "process_patterns arrow_get to_float [ByInstanceType, AllCosts] row tss
      = Inr (add_amount ''all-regions.all-types.total-cost'' t a
               (add_amount (r @ ''.ec2-instance.'' @ it) t a tss))"
    by (simp add: m nm ma na assms(4,5) bindE_def del: match.simps metric_name.simps)
  show ?thesis
    by (simp add: process_def pp bindE_def del: process_patterns.simps)
qed

lemma sample_ec2_row:
  "usage_type (Row_init sample_columns [iv, lit, ''USW2-BoxUsage:c3.2xlarge'', c, loc])
     = Inr (Some ''ec2-instance'')"
  "instance_type (Row_init sample_columns [iv, lit, ''USW2-BoxUsage:c3.2xlarge'', c, loc])
     = Inr (Some ''c3-2xlarge'')"
  "region (Row_init sample_columns [iv, lit, ut, c, ''US West (Oregon)'']) = Inr ''us-west-2''"
  by (simp_all add: usage_type_def instance_type_def region_def sample_row_getitem bindE_def
      str_defs REGION_NAMES_def)

lemma sample_amounts:
  "amount sample_to_float (Row_init sample_columns [iv, lit, ut, ''1.25'', loc]) = Inr (5 / 4)"
  "amount sample_to_float (Row_init sample_columns [iv, lit, ut, ''0.75'', loc]) = Inr (3 / 4)"
  by (simp_all add: amount_def sample_row_getitem bindE_def sample_to_float_def)

lemma sample_two_rows_feed:
  "feed sample_arrow_get sample_to_float sample_columns
     [[''2016-01-01T00:00:00Z/2016-01-01T01:00:00Z'', ''Usage'', ''USW2-BoxUsage:c3.2xlarge'',
       ''1.25'', ''US West (Oregon)''],
      [''2016-01-01T00:00:00Z/2016-01-01T01:00:00Z'', ''Usage'', ''USW2-BoxUsage:c3.2xlarge'',
       ''0.75'', ''US West (Oregon)'']]
     (MetricLedger_init [ByInstanceType, AllCosts])
   = Inr \<lparr>patterns = [ByInstanceType, AllCosts],
          timeseries = [(''us-west-2.ec2-instance.c3-2xlarge'', [(1451610000000000, 2)]),
                        (''all-regions.all-types.total-cost'', [(1451610000000000, 2)])]\<rparr>"
proof -
  let ?r1 = "[''2016-01-01T00:00:00Z/2016-01-01T01:00:00Z'', ''Usage'', ''USW2-BoxUsage:c3.2xlarge'',
       ''1.25'', ''US West (Oregon)'']"
  let ?r2 = "[''2016-01-01T00:00:00Z/2016-01-01T01:00:00Z'', ''Usage'', ''USW2-BoxUsage:c3.2xlarge'',
       ''0.75'', ''US West (Oregon)'']"
  let ?mid = "\<lparr>patterns = [ByInstanceType, AllCosts],
          timeseries = [(''us-west-2.ec2-instance.c3-2xlarge'', [(1451610000000000, 5 / 4 :: rat)]),
                        (''all-regions.all-types.total-cost'', [(1451610000000000, 5 / 4)])]\<rparr>"
  let ?fin = "\<lparr>patterns = [ByInstanceType, AllCosts],
          timeseries = [(''us-west-2.ec2-instance.c3-2xlarge'', [(1451610000000000, 2 :: rat)]),
                        (''all-regions.all-types.total-cost'', [(1451610000000000, 2)])]\<rparr>"
  have p1: "process sample_arrow_get sample_to_float (MetricLedger_init [ByInstanceType, AllCosts])
              (Row_init sample_columns ?r1) = Inr ?mid"
    unfolding MetricLedger_init_def
    by (simp add: process_ec2_row [OF sample_ec2_row(1) sample_ec2_row(3) sample_ec2_row(2)
          sample_hour_end_time sample_amounts(1)] add_amount_def)
  have p2: "process sample_arrow_get sample_to_float ?mid (Row_init sample_columns ?r2) = Inr ?fin"
    by (simp add: process_ec2_row [OF sample_ec2_row(1) sample_ec2_row(3) sample_ec2_row(2)
          sample_hour_end_time sample_amounts(2)] add_amount_def)
  have "feed sample_arrow_get sample_to_float sample_columns [?r1, ?r2]
          (MetricLedger_init [ByInstanceType, AllCosts])
        = feed sample_arrow_get sample_to_float sample_columns [?r2] ?mid"
    using sample_row_getitem(2) sample_hour_interval p1 by (rule feed_Cons_processed)
  also have "\<dots> = feed sample_arrow_get sample_to_float sample_columns [] ?fin"
    using sample_row_getitem(2) sample_hour_interval p2 by (rule feed_Cons_processed)
  finally show ?thesis by simp
qed

lemma sample_two_rows_amounts:
  "amounts_for sample_arrow_get sample_to_float [ByInstanceType, AllCosts]
     (processed sample_arrow_get sample_columns
        [[''2016-01-01T00:00:00Z/2016-01-01T01:00:00Z'', ''Usage'', ''USW2-BoxUsage:c3.2xlarge'',
          ''1.25'', ''US West (Oregon)''],
         [''2016-01-01T00:00:00Z/2016-01-01T01:00:00Z'', ''Usage'', ''USW2-BoxUsage:c3.2xlarge'',
          ''0.75'', ''US West (Oregon)'']])
     ''us-west-2.ec2-instance.c3-2xlarge'' 1451610000000000
   = [5 / 4, 3 / 4]"
proof -
  have m: "\<And>iv lit c loc. match ByInstanceType
        (Row_init sample_columns [iv, lit, ''USW2-BoxUsage:c3.2xlarge'', c, loc]) = Inr True"
    by (simp add: sample_ec2_row bindE_def tags_def)
  have nm: "\<And>iv lit c. metric_name ByInstanceType
        (Row_init sample_columns [iv, lit, ''USW2-BoxUsage:c3.2xlarge'', c, ''US West (Oregon)''])
          = Inr ''us-west-2.ec2-instance.c3-2xlarge''"
    by (simp add: sample_ec2_row bindE_def join_opt_def)
  show ?thesis
    by (simp add: amounts_for_def processed_def contribution_def sample_row_getitem
        sample_hour_interval sample_hour_end_time sample_amounts m nm
        del: match.simps(1) metric_name.simps(1))
qed

lemma mapE_append:
  "mapE f (xs @ ys) = bindE (mapE f xs) (\<lambda>a. bindE (mapE f ys) (\<lambda>b. Inr (a @ b)))"
  by (induction xs) (auto simp: bindE_def split: sum.splits)

lemma mapE_map: "mapE f (map h xs) = mapE (\<lambda>x. f (h x)) xs"
  by (induction xs) (auto simp: bindE_def split: sum.splits)

lemma nested_mapE_points:
  "bindE (mapE (\<lambda>(n, ts). mapE (\<lambda>(t, v). g n t v) ts) tss) (\<lambda>lss. Inr (concat lss))
     = mapE (\<lambda>(n, t, v). g n t v) (points tss)"
proof (induction tss)
  case Nil
  show ?case by (simp add: points_def bindE_def)
next
  case (Cons nts tss)
  obtain n ts where nts: "nts = (n, ts)" by (cases nts)
  have p: "points (nts # tss) = map (\<lambda>(t, v). (n, t, v)) ts @ points tss"
    by (simp add: points_def nts)
  have m: "mapE (\<lambda>(n, t, v). g n t v) (map (\<lambda>(t, v). (n, t, v)) ts) = mapE (\<lambda>(t, v). g n t v) ts"
    by (simp add: mapE_map case_prod_unfold)
  have rhs: "mapE (\<lambda>(n, t, v). g n t v) (points (nts # tss))
      = bindE (mapE (\<lambda>(t, v). g n t v) ts)
          (\<lambda>a. bindE (mapE (\<lambda>(n, t, v). g n t v) (points tss)) (\<lambda>b. Inr (a @ b)))"
    by (simp only: p mapE_append m)
  show ?case
  proof (cases "mapE (\<lambda>(t, v). g n t v) ts")
    case (Inl e)
    then show ?thesis unfolding rhs by (simp add: nts bindE_def)
  next
    case (Inr ls)
    show ?thesis
    proof (cases "mapE (\<lambda>(n, ts). mapE (\<lambda>(t, v). g n t v) ts) tss")
      case (Inl e)
      with Cons.IH have "mapE (\<lambda>(n, t, v). g n t v) (points tss) = Inl e"
        by (simp add: bindE_def)
      then show ?thesis unfolding rhs using Inr Inl by (simp add: nts bindE_def)
    next
      case (Inr lss)
      with Cons.IH have "mapE (\<lambda>(n, t, v). g n t v) (points tss) = Inr (concat lss)"
        by (simp add: bindE_def)
      then show ?thesis unfolding rhs using \<open>mapE (\<lambda>(t, v). g n t v) ts = Inr ls\<close> Inr
        by (simp add: nts bindE_def)
    qed
  qed
qed

lemma output_lines_points:
  "output_lines getenv_prefix ledger
     = mapE (\<lambda>(n, t, v). format (MetricFormatter_init getenv_prefix) n t v)
         (points (timeseries ledger))"
  unfolding output_lines_def Let_def by (rule nested_mapE_points)

lemma points_name: "(n, t, v) \<in> set (points tss) \<Longrightarrow> n \<in> fst ` set tss"
  by (force simp: points_def)

lemma set_points:
  "(n, t, v) \<in> set (points tss) \<longleftrightarrow> (\<exists>ts. (n, ts) \<in> set tss \<and> (t, v) \<in> set ts)"
  by (auto simp: points_def)

lemma points_keys_distinct:
  assumes "well_keyed tss"
  shows "distinct (map (\<lambda>(n, t, v). (n, t)) (points tss))"
  using assms
proof (induction tss)
  case Nil
  show ?case by (simp add: points_def)
next
  case (Cons nts tss)
  obtain n ts where nts: "nts = (n, ts)" by (cases nts)
  from Cons.prems have n: "n \<notin> fst ` set tss" and d: "distinct (map fst ts)"
    and wk: "well_keyed tss"
    by (auto simp: well_keyed_def nts)
  have p: "map (\<lambda>(n, t, v). (n, t)) (points (nts # tss))
             = map (Pair n) (map fst ts) @ map (\<lambda>(n, t, v). (n, t)) (points tss)"
    by (simp add: points_def nts case_prod_unfold comp_def)
  have 1: "distinct (map (Pair n) (map fst ts))"
    using d by (simp add: distinct_map inj_on_def)
  have 2: "distinct (map (\<lambda>(n, t, v). (n, t)) (points tss))"
    using wk by (rule Cons.IH)
  have 3: "set (map (Pair n) (map fst ts)) \<inter> set (map (\<lambda>(n, t, v). (n, t)) (points tss)) = {}"
    using n by (auto dest: points_name)
  show ?case unfolding p using 1 2 3 by simp
qed

lemma points_accumulator:
  assumes "well_keyed tss"
  shows "(n, t, v) \<in> set (points tss) \<longleftrightarrow> accumulator tss n t = Some v"
proof
  assume "(n, t, v) \<in> set (points tss)"
  then obtain ts where a: "(n, ts) \<in> set tss" and b: "(t, v) \<in> set ts"
    by (auto simp: set_points)
  have d: "distinct (map fst tss)" using assms by (simp add: well_keyed_def)
  have "distinct (map fst ts)" using assms a by (auto simp: well_keyed_def list_all_iff)
  then have "map_of ts t = Some v" using b by simp
  moreover have "map_of tss n = Some ts" using d a by simp
  ultimately show "accumulator tss n t = Some v" by (simp add: accumulator_def)
next
  assume "accumulator tss n t = Some v"
  then obtain ts where "map_of tss n = Some ts" and "map_of ts t = Some v"
    by (auto simp: accumulator_def split: option.splits)
  then have "(n, ts) \<in> set tss" and "(t, v) \<in> set ts"
    by (auto dest: map_of_SomeD)
  then show "(n, t, v) \<in> set (points tss)" by (auto simp: set_points)
qed

text \<open>
  C6. After the driver has processed any sequence of rows without error, the table
  holds one metric point for a metric name and a timestamp at most (every key occurs
  once), and the accumulator of a pair is the sum, from zero and in processing order,
  of the amounts of the processed records that a pattern matches under that metric
  name with that end time; a pair without such a record has no accumulator. Nothing is
  assumed of the addition, so this holds for float addition as it does for exact
  numbers. \<open>MetricLedger.output\<close> formats one line for each metric point of a
  ledger, so records that share a metric name and an end time yield one line, with
  their sum as its value.
\<close>

theorem ledger_sums:
  assumes "feed arrow_get to_float col_names rows (MetricLedger_init pats) = Inr ledger"
  shows "well_keyed (timeseries ledger)
       \<and> distinct (map (\<lambda>(n, t, v). (n, t)) (points (timeseries ledger)))
       \<and> (\<forall>v. (name, t, v) \<in> set (points (timeseries ledger))
             \<longleftrightarrow> accumulator (timeseries ledger) name t = Some v)
       \<and> accumulator (timeseries ledger) name t =
           (let as = amounts_for arrow_get to_float pats (processed arrow_get col_names rows) name t
            in if as = [] then None else Some (foldl (+) 0 as))
       \<and> output_lines getenv_prefix rat_ledger
           = mapE (\<lambda>(n, t, v). format (MetricFormatter_init getenv_prefix) n t v)
               (points (timeseries rat_ledger))"
proof -
  have wk0: "well_keyed (timeseries (MetricLedger_init pats :: 'a MetricLedger))"
    by (simp add: MetricLedger_init_def well_keyed_def)
  from feed_table [OF assms wk0, of name t]
  have wk: "well_keyed (timeseries ledger)"
    and acc: "accumulator (timeseries ledger) name t =
           (let as = amounts_for arrow_get to_float pats (processed arrow_get col_names rows) name t
            in if as = [] then None else Some (foldl (+) 0 as))"
    by (simp_all add: MetricLedger_init_def accumulator_def accumulate_None Let_def)
  have d: "distinct (map (\<lambda>(n, t, v). (n, t)) (points (timeseries ledger)))"
    using wk by (rule points_keys_distinct)
  have m: "\<forall>v. (name, t, v) \<in> set (points (timeseries ledger))
             \<longleftrightarrow> accumulator (timeseries ledger) name t = Some v"
    using points_accumulator [OF wk] by blast
  have out: "output_lines getenv_prefix rat_ledger
           = mapE (\<lambda>(n, t, v). format (MetricFormatter_init getenv_prefix) n t v)
               (points (timeseries rat_ledger))"
    by (rule output_lines_points)
  from wk d m acc out show ?thesis by blast
qed

text \<open>
  Two rows of amounts 1.25 and 0.75 for the same region, instance type and hour: one
  accumulator of value 2 for each of the two metric names, and one output line each.
\<close>

theorem ledger_sums_witness:
  "feed sample_arrow_get sample_to_float sample_columns
     [[''2016-01-01T00:00:00Z/2016-01-01T01:00:00Z'', ''Usage'', ''USW2-BoxUsage:c3.2xlarge'',
       ''1.25'', ''US West (Oregon)''],
      [''2016-01-01T00:00:00Z/2016-01-01T01:00:00Z'', ''Usage'', ''USW2-BoxUsage:c3.2xlarge'',
       ''0.75'', ''US West (Oregon)'']]
     (MetricLedger_init [ByInstanceType, AllCosts])
   = Inr \<lparr>patterns = [ByInstanceType, AllCosts],
          timeseries = [(''us-west-2.ec2-instance.c3-2xlarge'', [(1451610000000000, 2)]),
                        (''all-regions.all-types.total-cost'', [(1451610000000000, 2)])]\<rparr>
   \<and> well_keyed [(''us-west-2.ec2-instance.c3-2xlarge'', [(1451610000000000, 2 :: rat)]),
                  (''all-regions.all-types.total-cost'', [(1451610000000000, 2)])]
   \<and> accumulator [(''us-west-2.ec2-instance.c3-2xlarge'', [(1451610000000000, 2 :: rat)]),
                  (''all-regions.all-types.total-cost'', [(1451610000000000, 2)])]
        ''us-west-2.ec2-instance.c3-2xlarge'' 1451610000000000
       = Some (foldl (+) 0 [5 / 4, 3 / 4])
   \<and> output_lines (Some [])
        \<lparr>patterns = [ByInstanceType, AllCosts],
         timeseries = [(''us-west-2.ec2-instance.c3-2xlarge'', [(1451610000000000, 2)]),
                       (''all-regions.all-types.total-cost'', [(1451610000000000, 2)])]\<rparr>
       = Inr [''us-west-2.ec2-instance.c3-2xlarge 2.000000 1451610000'' @ [CHR 0x0A],
              ''all-regions.all-types.total-cost 2.000000 1451610000'' @ [CHR 0x0A]]"
proof -
  let ?tss = "[(''us-west-2.ec2-instance.c3-2xlarge'', [(1451610000000000, 2 :: rat)]),
               (''all-regions.all-types.total-cost'', [(1451610000000000, 2)])]"
  let ?fin = "\<lparr>patterns = [ByInstanceType, AllCosts], timeseries = ?tss\<rparr>"
  note T = ledger_sums [OF sample_two_rows_feed,
      where name = "''us-west-2.ec2-instance.c3-2xlarge''" and t = 1451610000000000
        and getenv_prefix = "Some []" and rat_ledger = ?fin]
  have wk: "well_keyed ?tss"
    using T [THEN conjunct1] by simp
  have acc: "accumulator ?tss ''us-west-2.ec2-instance.c3-2xlarge'' 1451610000000000
       = Some (foldl (+) 0 [5 / 4, 3 / 4])"
    using T [THEN conjunct2, THEN conjunct2, THEN conjunct2, THEN conjunct1]
    by (simp add: sample_two_rows_amounts Let_def del: foldl_Cons)
  have pts: "points ?tss = [(''us-west-2.ec2-instance.c3-2xlarge'', 1451610000000000, 2),
                            (''all-regions.all-types.total-cost'', 1451610000000000, 2)]"
    by (simp add: points_def)
  have f1: "format (MetricFormatter_init (Some [])) ''us-west-2.ec2-instance.c3-2xlarge''
              1451610000000000 2
            = Inr (''us-west-2.ec2-instance.c3-2xlarge 2.000000 1451610000'' @ [CHR 0x0A])"
    by (simp add: format_no_prefix fmt_eval)
  have f2: "format (MetricFormatter_init (Some [])) ''all-regions.all-types.total-cost''
              1451610000000000 2
            = Inr (''all-regions.all-types.total-cost 2.000000 1451610000'' @ [CHR 0x0A])"
    by (simp add: format_no_prefix fmt_eval)
  have "output_lines (Some []) ?fin
       = mapE (\<lambda>(n, t, v). format (MetricFormatter_init (Some [])) n t v) (points ?tss)"
    using T [THEN conjunct2, THEN conjunct2, THEN conjunct2, THEN conjunct2]
    by (simp only: MetricLedger.select_convs)
  also have "\<dots> = Inr [''us-west-2.ec2-instance.c3-2xlarge 2.000000 1451610000'' @ [CHR 0x0A],
              ''all-regions.all-types.total-cost 2.000000 1451610000'' @ [CHR 0x0A]]"
    unfolding pts mapE.simps case_prod_conv f1 f2 by (simp add: bindE_def)
  finally have out: "output_lines (Some []) ?fin
       = Inr [''us-west-2.ec2-instance.c3-2xlarge 2.000000 1451610000'' @ [CHR 0x0A],
              ''all-regions.all-types.total-cost 2.000000 1451610000'' @ [CHR 0x0A]]" .
  from sample_two_rows_feed wk acc out show ?thesis by blast
qed

text \<open>
  C5. The claim: an hourly \<open>Usage\<close> row whose usage type contains
  \<open>BoxUsage:<type>\<close> yields one point per instance type and one point of total
  cost. \<open>Row.usage_type\<close> looks only at the first segment of the usage type, after a
  four-character region code is dropped. \<open>EU-BoxUsage:m1.small\<close> contains
  \<open>BoxUsage:m1.small\<close>, but its first segment \<open>EU\<close> is neither a region code of
  four characters nor a \<open>BoxUsage:\<close> segment: the row yields the total-cost point
  only.
\<close>

theorem box_usage_contained_counterexample:
  "contains ''EU-BoxUsage:m1.small'' ''BoxUsage:m1.small''
   \<and> feed sample_arrow_get sample_to_float sample_columns
        [[''2016-01-01T00:00:00Z/2016-01-01T01:00:00Z'', ''Usage'', ''EU-BoxUsage:m1.small'', ''3.0'',
          ''EU (Ireland)'']]
        (MetricLedger_init [ByInstanceType, AllCosts])
      = Inr \<lparr>patterns = [ByInstanceType, AllCosts],
             timeseries = [(''all-regions.all-types.total-cost'', [(1451610000000000, 3)])]\<rparr>"
proof -
  let ?rl = "[''2016-01-01T00:00:00Z/2016-01-01T01:00:00Z'', ''Usage'', ''EU-BoxUsage:m1.small'', ''3.0'',
          ''EU (Ireland)'']"
  have c: "contains ''EU-BoxUsage:m1.small'' ''BoxUsage:m1.small''"
    by (simp add: startswith_def)
  have u: "usage_type (Row_init sample_columns ?rl) = Inr None"
    by (simp add: usage_type_def sample_row_getitem bindE_def str_defs)
  have a: "amount sample_to_float (Row_init sample_columns ?rl) = Inr 3"
    by (simp add: amount_def sample_row_getitem bindE_def sample_to_float_def)
  have "feed sample_arrow_get sample_to_float sample_columns [?rl]
        (MetricLedger_init [ByInstanceType, AllCosts])
      = Inr \<lparr>patterns = [ByInstanceType, AllCosts],
             timeseries = [(''all-regions.all-types.total-cost'', [(1451610000000000, 0 + 3)])]\<rparr>"
    using sample_row_content(2) sample_hour_interval u sample_hour_end_time a
    by (rule box_usage_absent_points)
  with c show ?thesis by simp
qed

text \<open>
  C5 as the code has it: for an hourly \<open>Usage\<close> row that \<open>usage_type\<close> classifies
  as ec2-instance, with a location and a numeric cost, the run on that row alone
  leaves exactly two accumulators, one named region, \<open>ec2-instance\<close> and instance
  type joined by dots and one named \<open>all-regions.all-types.total-cost\<close>, both at
  the row's end time and both holding zero plus the row's amount.
\<close>

theorem box_usage_row_points:
  assumes "content (Row_init col_names row_list) ''lineItem/LineItemType'' = Some ''Usage''"
      and "interval arrow_get (Row_init col_names row_list) = Inr 3600"
      and "usage_type (Row_init col_names row_list) = Inr (Some ''ec2-instance'')"
      and "region (Row_init col_names row_list) = Inr r"
      and "amount to_float (Row_init col_names row_list) = Inr a"
  shows "\<exists>it t. instance_type (Row_init col_names row_list) = Inr (Some it)
           \<and> end_time arrow_get (Row_init col_names row_list) = Inr t
           \<and> feed arrow_get to_float col_names [row_list] (MetricLedger_init [ByInstanceType, AllCosts])
               = Inr \<lparr>patterns = [ByInstanceType, AllCosts],
                      timeseries = [(r @ ''.ec2-instance.'' @ it, [(t, 0 + a)]),
                                    (''all-regions.all-types.total-cost'', [(t, 0 + a)])]\<rparr>"
proof -
  let ?row = "Row_init col_names row_list"
  obtain it where it: "instance_type ?row = Inr (Some it)"
    using usage_type_ec2_instance_type [OF assms(3)] by blast
  obtain t where t: "end_time arrow_get ?row = Inr t"
    using interval_end_time [OF assms(2)] by blast
  have lit: "getitem ?row ''lineItem/LineItemType'' = Inr ''Usage''"
    using assms(1) by (rule row_get)
  have m: "match ByInstanceType ?row = Inr True"
    by (simp add: assms(3) bindE_def tags_def)
  have nm: "metric_name ByInstanceType ?row = Inr (r @ ''.ec2-instance.'' @ it)"
    by (simp add: assms(3,4) it bindE_def join_opt_def)
  have ma: "match AllCosts ?row = Inr True" by simp
  have na: "metric_name AllCosts ?row = Inr ''all-regions.all-types.total-cost''" by simp
  have ne: "''all-regions.all-types.total-cost'' \<noteq> r @ ''.ec2-instance.'' @ it"
    using instance_name_not_total [OF assms(4), of it] by auto
  have pp: "process_patterns arrow_get to_float [ByInstanceType, AllCosts] ?row []
      = Inr [(r @ ''.ec2-instance.'' @ it, [(t, 0 + a)]),
             (''all-regions.all-types.total-cost'', [(t, 0 + a)])]"
    using ne by (simp add: m nm ma na t assms(5) bindE_def add_amount_def
        del: match.simps metric_name.simps)
  have pr: "process arrow_get to_float (MetricLedger_init [ByInstanceType, AllCosts]) ?row
      = Inr \<lparr>patterns = [ByInstanceType, AllCosts],
             timeseries = [(r @ ''.ec2-instance.'' @ it, [(t, 0 + a)]),
                           (''all-regions.all-types.total-cost'', [(t, 0 + a)])]\<rparr>"
    by (simp add: process_def MetricLedger_init_def pp bindE_def del: process_patterns.simps)
  have "feed arrow_get to_float col_names [row_list] (MetricLedger_init [ByInstanceType, AllCosts])
               = Inr \<lparr>patterns = [ByInstanceType, AllCosts],
                      timeseries = [(r @ ''.ec2-instance.'' @ it, [(t, 0 + a)]),
                                    (''all-regions.all-types.total-cost'', [(t, 0 + a)])]\<rparr>"
    by (simp add: Let_def lit assms(2) pr bindE_def)
  with it t show ?thesis by blast
qed

theorem box_usage_row_points_witness:
  "feed sample_arrow_get sample_to_float sample_columns
        [[''2016-01-01T00:00:00Z/2016-01-01T01:00:00Z'', ''Usage'', ''USW2-BoxUsage:c3.2xlarge'',
          ''0.850000'', ''US West (Oregon)'']]
        (MetricLedger_init [ByInstanceType, AllCosts])
      = Inr \<lparr>patterns = [ByInstanceType, AllCosts],
             timeseries = [(''us-west-2.ec2-instance.c3-2xlarge'', [(1451610000000000, 17 / 20)]),
                           (''all-regions.all-types.total-cost'', [(1451610000000000, 17 / 20)])]\<rparr>"
proof -
  let ?rl = "[''2016-01-01T00:00:00Z/2016-01-01T01:00:00Z'', ''Usage'', ''USW2-BoxUsage:c3.2xlarge'',
          ''0.850000'', ''US West (Oregon)'']"
  have u: "usage_type (Row_init sample_columns ?rl) = Inr (Some ''ec2-instance'')"
    by (simp add: usage_type_def sample_row_getitem bindE_def str_defs)
  have r: "region (Row_init sample_columns ?rl) = Inr ''us-west-2''"
    by (simp add: region_def sample_row_getitem bindE_def REGION_NAMES_def)
  have a: "amount sample_to_float (Row_init sample_columns ?rl) = Inr (17 / 20)"
    by (simp add: amount_def sample_row_getitem bindE_def sample_to_float_def)
  have i: "instance_type (Row_init sample_columns ?rl) = Inr (Some ''c3-2xlarge'')"
    by (simp add: instance_type_def sample_row_getitem bindE_def str_defs)
  from box_usage_row_points [OF sample_row_content(2) sample_hour_interval u r a]
  show ?thesis by (simp add: i sample_hour_end_time)
qed

lemma sample_half_interval:
  "interval sample_arrow_get
     (Row_init sample_columns [''2016-01-01T00:00:00Z/2016-01-01T01:00:00.500000Z'', lit, ut, c, loc])
     = Inr 3600"
  by (simp add: interval_def sample_row_getitem bindE_def split1_def arrow_parse_def
      sample_arrow_get_def total_seconds_int_def)

lemma sample_half_end_time:
  "end_time sample_arrow_get
     (Row_init sample_columns [''2016-01-01T00:00:00Z/2016-01-01T01:00:00.500000Z'', lit, ut, c, loc])
     = Inr 1451610000500000"
  by (simp add: end_time_def sample_row_getitem bindE_def split1_def arrow_parse_def
      sample_arrow_get_def)

lemma sample_amount_three:
  "amount sample_to_float (Row_init sample_columns [iv, lit, ut, ''3.0'', loc]) = Inr 3"
  by (simp add: amount_def sample_row_getitem bindE_def sample_to_float_def)

text \<open>
  C9. The claim: a row whose time interval is not exactly 3600 seconds is skipped.
  \<open>Row.interval\<close> returns \<open>int((end - start).total_seconds())\<close>, which drops
  the fraction of a second, and the driver compares that integer with 3600. A
  \<open>Usage\<close> row from 00:00:00 to 01:00:00.5 spans 3600.5 seconds, not exactly 3600;
  its \<open>interval()\<close> is 3600, and the driver adds its amount to both metrics.
\<close>

theorem interval_truncated_counterexample:
  "sample_arrow_get ''2016-01-01T00:00:00Z'' = Some 1451606400000000
   \<and> sample_arrow_get ''2016-01-01T01:00:00.500000Z'' = Some 1451610000500000
   \<and> (1451610000500000 - 1451606400000000 :: int) \<noteq> 3600 * 1000000
   \<and> interval sample_arrow_get
        (Row_init sample_columns
           [''2016-01-01T00:00:00Z/2016-01-01T01:00:00.500000Z'', ''Usage'',
            ''USW2-BoxUsage:c3.2xlarge'', ''3.0'', ''US West (Oregon)''])
       = Inr 3600
   \<and> feed sample_arrow_get sample_to_float sample_columns
        [[''2016-01-01T00:00:00Z/2016-01-01T01:00:00.500000Z'', ''Usage'',
          ''USW2-BoxUsage:c3.2xlarge'', ''3.0'', ''US West (Oregon)'']]
        (MetricLedger_init [ByInstanceType, AllCosts])
       = Inr \<lparr>patterns = [ByInstanceType, AllCosts],
              timeseries = [(''us-west-2.ec2-instance.c3-2xlarge'', [(1451610000500000, 3)]),
                            (''all-regions.all-types.total-cost'', [(1451610000500000, 3)])]\<rparr>"
proof -
  let ?rl = "[''2016-01-01T00:00:00Z/2016-01-01T01:00:00.500000Z'', ''Usage'',
              ''USW2-BoxUsage:c3.2xlarge'', ''3.0'', ''US West (Oregon)'']"
  let ?fin = "\<lparr>patterns = [ByInstanceType, AllCosts],
              timeseries = [(''us-west-2.ec2-instance.c3-2xlarge'', [(1451610000500000, 3 :: rat)]),
                            (''all-regions.all-types.total-cost'', [(1451610000500000, 3)])]\<rparr>"
  have a: "sample_arrow_get ''2016-01-01T00:00:00Z'' = Some 1451606400000000
     \<and> sample_arrow_get ''2016-01-01T01:00:00.500000Z'' = Some 1451610000500000"
    by (simp add: sample_arrow_get_def)
  have d: "(1451610000500000 - 1451606400000000 :: int) \<noteq> 3600 * 1000000" by simp
  have p: "process sample_arrow_get sample_to_float (MetricLedger_init [ByInstanceType, AllCosts])
              (Row_init sample_columns ?rl) = Inr ?fin"
    unfolding MetricLedger_init_def
    by (simp add: process_ec2_row [OF sample_ec2_row(1) sample_ec2_row(3) sample_ec2_row(2)
          sample_half_end_time sample_amount_three] add_amount_def)
  have "feed sample_arrow_get sample_to_float sample_columns [?rl]
          (MetricLedger_init [ByInstanceType, AllCosts])
        = feed sample_arrow_get sample_to_float sample_columns [] ?fin"
    using sample_row_getitem(2) sample_half_interval p by (rule feed_Cons_processed)
  then have f: "feed sample_arrow_get sample_to_float sample_columns [?rl]
          (MetricLedger_init [ByInstanceType, AllCosts]) = Inr ?fin"
    by simp
  from a d sample_half_interval [of "''Usage''" "''USW2-BoxUsage:c3.2xlarge''" "''3.0''" "''US West (Oregon)''"] f
  show ?thesis by blast
qed

lemma feed_skip_step:
  assumes "content (Row_init col_names row_list) ''lineItem/LineItemType'' = Some lit"
      and "lit \<noteq> ''Usage'' \<or> (\<exists>n. interval arrow_get (Row_init col_names row_list) = Inr n \<and> n \<noteq> 3600)"
  shows "feed arrow_get to_float col_names (row_list # rest) ledger
           = feed arrow_get to_float col_names rest ledger"
  using assms by (auto simp: Let_def bindE_def getitem_def)

lemma feed_append_skip:
  assumes "\<And>ledger. feed arrow_get to_float col_names (row_list # rest) ledger
             = feed arrow_get to_float col_names rest ledger"
  shows "feed arrow_get to_float col_names (before @ row_list # rest) ledger
           = feed arrow_get to_float col_names (before @ rest) ledger"
proof (induction before arbitrary: ledger)
  case Nil
  show ?case using assms by simp
next
  case (Cons b before)
  show ?case
    by (simp add: Let_def bindE_def Cons.IH split: sum.splits)
qed

text \<open>
  C9 as the code has it: a row that has a line-item type other than \<open>Usage\<close>, or
  whose \<open>interval()\<close>, the whole seconds between the start and the end of its time
  interval with the fraction dropped, is not 3600, is skipped by the loop of
  \<open>generate_metrics\<close>: alone it leaves the ledger as it was, without error, and
  anywhere in the input the run is the run without it, whatever its other fields hold.
\<close>

theorem feed_skips:
  assumes "content (Row_init col_names row_list) ''lineItem/LineItemType'' = Some lit"
      and "lit \<noteq> ''Usage'' \<or> (\<exists>n. interval arrow_get (Row_init col_names row_list) = Inr n \<and> n \<noteq> 3600)"
  shows "feed arrow_get to_float col_names [row_list] ledger = Inr ledger
       \<and> feed arrow_get to_float col_names (before @ row_list # rest) ledger
           = feed arrow_get to_float col_names (before @ rest) ledger"
proof -
  have step: "\<And>rest ledger. feed arrow_get to_float col_names (row_list # rest) ledger
             = feed arrow_get to_float col_names rest ledger"
    using assms by (rule feed_skip_step)
  have "feed arrow_get to_float col_names [row_list] ledger = Inr ledger"
    by (simp only: step feed.simps(1))
  moreover have "feed arrow_get to_float col_names (before @ row_list # rest) ledger
           = feed arrow_get to_float col_names (before @ rest) ledger"
    using step by (rule feed_append_skip)
  ultimately show ?thesis by blast
qed

theorem feed_skips_witness:
  "feed sample_arrow_get sample_to_float sample_columns
      [[''2016-01-01T00:00:00Z/2016-01-01T01:00:00Z'', ''Tax'', ''BoxUsage:m1.small'', ''3.0'',
        ''US East (N. Virginia)'']]
      (MetricLedger_init [ByInstanceType, AllCosts])
     = Inr (MetricLedger_init [ByInstanceType, AllCosts])
   \<and> feed sample_arrow_get sample_to_float sample_columns
      [[''2016-01-01T00:00:00Z/2016-01-01T02:00:00Z'', ''Usage'', ''BoxUsage:m1.small'', ''3.0'',
        ''US East (N. Virginia)'']]
      (MetricLedger_init [ByInstanceType, AllCosts])
     = Inr (MetricLedger_init [ByInstanceType, AllCosts])"
proof -
  let ?tax = "[''2016-01-01T00:00:00Z/2016-01-01T01:00:00Z'', ''Tax'', ''BoxUsage:m1.small'', ''3.0'',
        ''US East (N. Virginia)'']"
  let ?two = "[''2016-01-01T00:00:00Z/2016-01-01T02:00:00Z'', ''Usage'', ''BoxUsage:m1.small'', ''3.0'',
        ''US East (N. Virginia)'']"
  have t1: "content (Row_init sample_columns ?tax) ''lineItem/LineItemType'' = Some ''Tax''"
    by (simp add: Row_init_def sample_columns_def)
  have t2: "''Tax'' \<noteq> ''Usage''
      \<or> (\<exists>n. interval sample_arrow_get (Row_init sample_columns ?tax) = Inr n \<and> n \<noteq> 3600)"
    by simp
  have u1: "content (Row_init sample_columns ?two) ''lineItem/LineItemType'' = Some ''Usage''"
    by (simp add: Row_init_def sample_columns_def)
  have "interval sample_arrow_get (Row_init sample_columns ?two) = Inr 7200"
    by (simp add: interval_def Row_init_def sample_columns_def getitem_def bindE_def split1_def
        arrow_parse_def sample_arrow_get_def total_seconds_int_def)
  then have u2: "''Usage'' \<noteq> ''Usage''
      \<or> (\<exists>n. interval sample_arrow_get (Row_init sample_columns ?two) = Inr n \<and> n \<noteq> 3600)"
    by simp
  from feed_skips [OF t1 t2] feed_skips [OF u1 u2] show ?thesis by blast
qed

end
